theory Spec2Isabelle
  imports Main "HOL-Library.Mapping" "HOL-Library.AList_Mapping"
begin

section \<open>Data model (internal/types, internal/config)\<close>

text \<open>
  Go structs are records; a pointer field that the code tests against nil is an
  \<open>option\<close>; Go's \<open>int\<close> fields are \<open>int\<close> (no arithmetic is done on them, only
  comparisons and printing); a Go \<open>map[string]string\<close> is a \<open>(string, string) mapping\<close>.
  Field names carry a short prefix naming their struct, since record fields are global
  constants. Only the fields of \<open>AppAnalysis\<close> that the generator package reads are
  kept (\<open>Dockerfile\<close>, \<open>Compose\<close> and \<open>Code\<close> are read by the analyzer only).
\<close>

record Port =
  p_Port :: int
  p_Protocol :: string
  p_Purpose :: string

record HealthCheck =
  hc_Path :: string
  hc_Port :: int
  hc_InitialDelay :: int
  hc_Period :: int

record EnvVar =
  ev_Name :: string
  ev_Value :: string
  ev_Secret :: bool

record ScalingConfig =
  sc_MinReplicas :: int
  sc_MaxReplicas :: int
  sc_TargetCPU :: int
  sc_TargetMemory :: int
  sc_Behavior :: string

record ResourceOverrides =
  ro_RequestsCPU :: string
  ro_RequestsMemory :: string
  ro_LimitsCPU :: string
  ro_LimitsMemory :: string

record IngressPathDef =
  ipd_Path :: string
  ipd_PathType :: string

record IngressContext =
  ic_Enabled :: bool
  ic_Host :: string
  ic_Paths :: "IngressPathDef list"
  ic_TLSEnabled :: bool
  ic_TLSSecret :: string

record HealthContext =
  hx_LivenessPath :: string
  hx_LivenessPort :: int
  hx_ReadinessPath :: string
  hx_ReadinessPort :: int
  hx_InitialDelay :: int
  hx_Period :: int
  hx_StartupGracePeriod :: string

record DependencyContext =
  dc_Name :: string
  dc_Type :: string
  dc_Required :: bool
  dc_HealthCheck :: string

record OperationsContext =
  oc_Runbook :: string
  oc_Alerts :: "string list"
  oc_MaintenanceWindow :: string
  oc_OnCall :: string
  oc_AutoRestart :: bool

record DeploymentPolicyContext =
  dp_Strategy :: string
  dp_MaxSurge :: string
  dp_MaxUnavailable :: string

record AppConfigContext =
  ac_Name :: string
  ac_Description :: string
  ac_Team :: string
  ac_Owner :: string
  ac_Repository :: string
  ac_Type :: string
  ac_Tier :: string
  ac_Instructions :: string
  ac_Environment :: string
  ac_Resources :: "ResourceOverrides option"
  ac_Scaling :: "ScalingConfig option"
  ac_Labels :: "(string, string) mapping"
  ac_Annotations :: "(string, string) mapping"
  ac_Ingress :: "IngressContext option"
  ac_Health :: "HealthContext option"
  ac_Dependencies :: "DependencyContext list"
  ac_Operations :: "OperationsContext option"
  ac_DeploymentPolicy :: "DeploymentPolicyContext option"

record AppAnalysis =
  a_Name :: string
  a_Type :: string
  a_Language :: string
  a_Framework :: string
  a_Description :: string
  a_Ports :: "Port list"
  a_HealthCheck :: "HealthCheck option"
  a_EnvVars :: "EnvVar list"
  a_Dependencies :: "string list"
  a_ResourceProfile :: string
  a_Scaling :: "ScalingConfig option"
  a_AppConfig :: "AppConfigContext option"
  a_Team :: string
  a_Owner :: string
  a_Repository :: string
  a_Environment :: string

record ResourceValues =
  rv_CPU :: string
  rv_Memory :: string

record ResourceSpec =
  rs_Requests :: ResourceValues
  rs_Limits :: ResourceValues

text \<open>
  \<open>config.Config\<close>, with its nested structs flattened: a field
  \<open>cfg.Ingress.TLS.Enabled\<close> of the source is \<open>cfg_Ingress_TLS_Enabled\<close> here.
\<close>

record Config =
  cfg_Resources_Defaults :: ResourceSpec
  cfg_Resources_Profiles :: "(string, ResourceSpec) mapping"
  cfg_Labels_Custom :: "(string, string) mapping"
  cfg_Annotations_Custom :: "(string, string) mapping"
  cfg_Security_RunAsNonRoot :: bool
  cfg_Security_ReadOnlyRootFilesystem :: bool
  cfg_Security_AllowPrivilegeEscalation :: bool
  cfg_Ingress_Class :: string
  cfg_Ingress_DomainSuffix :: string
  cfg_Ingress_TLS_Enabled :: bool
  cfg_Ingress_TLS_ClusterIssuer :: string
  cfg_ArgoCD_Project :: string
  cfg_ArgoCD_Destination_Server :: string
  cfg_ArgoCD_Prune :: bool
  cfg_ArgoCD_SelfHeal :: bool
  cfg_CI_Registry :: string
  cfg_LLM_Provider :: string

definition GetResourcesForProfile :: "Config \<Rightarrow> string \<Rightarrow> ResourceSpec" where
  "GetResourcesForProfile c profile =
     (case Mapping.lookup (cfg_Resources_Profiles c) profile of
        Some spec \<Rightarrow> spec
      | None \<Rightarrow> cfg_Resources_Defaults c)"

record Options =
  o_Namespace :: string
  o_SkipArgoCD :: bool
  o_SkipCI :: bool
  o_SkipPersona :: bool
  o_Config :: Config

record GeneratedFile =
  gf_Path :: string
  gf_Content :: string

section \<open>String helpers of the Go standard library\<close>

definition HasSuffix :: "string \<Rightarrow> string \<Rightarrow> bool" where
  "HasSuffix s suffix =
     (length suffix \<le> length s \<and> drop (length s - length suffix) s = suffix)"

definition TrimSuffix :: "string \<Rightarrow> string \<Rightarrow> string" where
  "TrimSuffix s suffix =
     (if HasSuffix s suffix then take (length s - length suffix) s else s)"

text \<open>\<open>strings.ToLower\<close> on the ASCII letters; other bytes are kept.\<close>

definition ToLower :: "string \<Rightarrow> string" where
  "ToLower s = map (\<lambda>c. if (65::nat) \<le> of_char c \<and> of_char c \<le> (90::nat)
                          then char_of (of_char c + (32::nat)) else c) s"

text \<open>\<open>%d\<close> of \<open>fmt.Sprintf\<close>: the decimal digits, with a minus sign below zero.\<close>

function digits_of :: "nat \<Rightarrow> string" where
  "digits_of n =
     (if n < 10 then [''0123456789'' ! n]
      else digits_of (n div 10) @ [''0123456789'' ! (n mod 10)])"
  by pat_completeness auto
termination
  by (relation "measure id") auto

declare digits_of.simps [simp del]

definition fmt_d :: "int \<Rightarrow> string" where
  "fmt_d i = (if i < 0 then CHR ''-'' # digits_of (nat (- i)) else digits_of (nat i))"

definition fmt_t :: "bool \<Rightarrow> string" where
  "fmt_t b = (if b then ''true'' else ''false'')"

fun Join :: "string list \<Rightarrow> string \<Rightarrow> string" where
  "Join [] sep = []"
| "Join [x] sep = x"
| "Join (x # y # ys) sep = x @ sep @ Join (y # ys) sep"

subsection \<open>Scanning numbers: \<open>fmt.Sscanf\<close>\<close>

text \<open>
  \<open>fmt.Sscanf(s, "%d", &n)\<close> with \<open>n\<close> an \<open>int64\<close> initialised to zero, as Go's
  \<open>fmt\<close> package scans: blanks before the number are skipped (a newline among them is an
  error); one sign is accepted; the token is the longest run of decimal digits, which must
  not be empty; \<open>strconv.ParseInt\<close> then rejects a value outside the 64-bit range. What
  follows the token is ignored. The source drops the error of \<open>Sscanf\<close>, so every
  failure leaves \<open>n\<close> at 0. Strings are bytes here: the blanks are the ASCII ones (the
  few blanks of Unicode beyond ASCII are not recognised).
\<close>

definition isSpace :: "char \<Rightarrow> bool" where
  "isSpace c = (c = CHR '' '' \<or> c = CHR 0x09 \<or> c = CHR 0x0B \<or> c = CHR 0x0C \<or> c = CHR 0x0D)"

fun SkipSpace :: "string \<Rightarrow> string option" where
  "SkipSpace [] = Some []"
| "SkipSpace (c # cs) =
     (if c = CHR 0x0A then None
      else if isSpace c then SkipSpace cs
      else Some (c # cs))"

definition isDigit :: "char \<Rightarrow> bool" where
  "isDigit c = ((48::nat) \<le> of_char c \<and> of_char c \<le> (57::nat))"

definition digit_val :: "char \<Rightarrow> int" where
  "digit_val c = int (of_char c) - 48"

definition decimal :: "string \<Rightarrow> int" where
  "decimal ds = foldl (\<lambda>acc c. 10 * acc + digit_val c) 0 ds"

definition in_int64 :: "int \<Rightarrow> bool" where
  "in_int64 v = (- (2 ^ 63) \<le> v \<and> v < 2 ^ 63)"

definition scanInt :: "string \<Rightarrow> int" where
  "scanInt r =
     (let (neg, body) =
            (case r of
               [] \<Rightarrow> (False, [])
             | c # cs \<Rightarrow>
                 if c = CHR ''-'' then (True, cs)
                 else if c = CHR ''+'' then (False, cs)
                 else (False, r));
          tok = takeWhile isDigit body;
          v = (if neg then - decimal tok else decimal tok)
      in if tok = [] \<or> \<not> in_int64 v then 0 else v)"

definition Sscanf_d :: "string \<Rightarrow> int" where
  "Sscanf_d s = (case SkipSpace s of None \<Rightarrow> 0 | Some r \<Rightarrow> scanInt r)"

text \<open>The wrap-around of a 64-bit signed multiplication.\<close>

definition int64 :: "int \<Rightarrow> int" where
  "int64 x = (x + 2 ^ 63) mod 2 ^ 64 - 2 ^ 63"

section \<open>The validator (internal/generator/validate.go)\<close>

datatype ValidationSeverity = SeverityError | SeverityWarning | SeverityInfo

record ValidationIssue =
  vi_Severity :: ValidationSeverity
  vi_Category :: string
  vi_File :: string
  vi_Message :: string
  vi_Suggestion :: string

record ValidationResult =
  vr_Issues :: "ValidationIssue list"
  vr_Passed :: bool
  vr_Summary :: string

definition append_issue :: "ValidationResult \<Rightarrow> ValidationIssue \<Rightarrow> ValidationResult" where
  "append_issue result issue = result\<lparr>vr_Issues := vr_Issues result @ [issue]\<rparr>"

definition validateImagePlaceholder ::
  "AppAnalysis \<Rightarrow> Options \<Rightarrow> ValidationResult \<Rightarrow> ValidationResult" where
  "validateImagePlaceholder analysis opts result =
     (let registry = cfg_CI_Registry (o_Config opts);
          result1 = (if registry = [] then
             append_issue result
               \<lparr>vi_Severity = SeverityWarning, vi_Category = ''image'',
                vi_File = ''deployment.yaml'',
                vi_Message = ''Container image is placeholder '' @ [CHR 0x27]
                   @ a_Name analysis @ '':latest'' @ [CHR 0x27] @ '' (no registry set)'',
                vi_Suggestion = ''Set CI registry via '' @ [CHR 0x27]
                   @ ''dorgu config set defaults.registry <registry>'' @ [CHR 0x27]
                   @ '' or in .dorgu.yaml''\<rparr>
           else result)
      in append_issue result1
           \<lparr>vi_Severity = SeverityInfo, vi_Category = ''image'',
            vi_File = ''deployment.yaml'',
            vi_Message = ''Image uses '' @ [CHR 0x27] @ '':latest'' @ [CHR 0x27] @ '' tag'',
            vi_Suggestion =
              ''Use specific image tags in production for reproducible deployments''\<rparr>)"

text \<open>
  The merge of the four app-config resource overrides into a resource spec: the same
  statements appear in \<open>validateResourceRequestsVsLimits\<close>, \<open>GenerateDeployment\<close> and
  \<open>writeResources\<close>.
\<close>

definition apply_resource_overrides :: "AppAnalysis \<Rightarrow> ResourceSpec \<Rightarrow> ResourceSpec" where
  "apply_resource_overrides analysis resources =
     (case a_AppConfig analysis of
        None \<Rightarrow> resources
      | Some ac \<Rightarrow>
         (case ac_Resources ac of
            None \<Rightarrow> resources
          | Some r \<Rightarrow>
             (let r1 = (if ro_RequestsCPU r \<noteq> []
                        then resources\<lparr>rs_Requests := (rs_Requests resources)\<lparr>rv_CPU := ro_RequestsCPU r\<rparr>\<rparr>
                        else resources);
                  r2 = (if ro_RequestsMemory r \<noteq> []
                        then r1\<lparr>rs_Requests := (rs_Requests r1)\<lparr>rv_Memory := ro_RequestsMemory r\<rparr>\<rparr>
                        else r1);
                  r3 = (if ro_LimitsCPU r \<noteq> []
                        then r2\<lparr>rs_Limits := (rs_Limits r2)\<lparr>rv_CPU := ro_LimitsCPU r\<rparr>\<rparr>
                        else r2);
                  r4 = (if ro_LimitsMemory r \<noteq> []
                        then r3\<lparr>rs_Limits := (rs_Limits r3)\<lparr>rv_Memory := ro_LimitsMemory r\<rparr>\<rparr>
                        else r3)
              in r4)))"

text \<open>
  The resource spec of the profile with the overrides applied: what the validator, the
  workload document and the structured persona all start from.
\<close>

definition merged_resources :: "AppAnalysis \<Rightarrow> Config \<Rightarrow> ResourceSpec" where
  "merged_resources analysis cfg =
     apply_resource_overrides analysis (GetResourcesForProfile cfg (a_ResourceProfile analysis))"

text \<open>
  \<open>parseCPUMillis\<close>. The branch without the suffix scans a \<open>float64\<close> with \<open>%f\<close> and
  returns \<open>int64(cores * 1000)\<close>. Binary floating point is modelled where it is exact: on a
  string of decimal digits only, of a value \<open>n\<close> with \<open>n * 1000 \<le> 2 ^ 53\<close>, the scan reads
  \<open>n\<close>, the product is \<open>n * 1000\<close> and the conversion keeps it. On every other string
  (fractions, exponents, hexadecimal floats, infinities, NaN, trailing text) the result is
  that of the parameter \<open>float_millis\<close>, which stands for the platform's arithmetic.
\<close>

definition cores_millis :: "(string \<Rightarrow> int) \<Rightarrow> string \<Rightarrow> int" where
  "cores_millis float_millis cpu =
     (if cpu \<noteq> [] \<and> list_all isDigit cpu \<and> decimal cpu * 1000 \<le> 2 ^ 53
      then decimal cpu * 1000
      else float_millis cpu)"

definition parseCPUMillis :: "(string \<Rightarrow> int) \<Rightarrow> string \<Rightarrow> int" where
  "parseCPUMillis float_millis cpu =
     (if cpu = [] then 0
      else if HasSuffix cpu ''m'' then Sscanf_d (TrimSuffix cpu ''m'')
      else cores_millis float_millis cpu)"

text \<open>
  \<open>parseMemoryBytes\<close> ranges over a Go map of the four suffixes, in an order the
  language leaves open; no string ends in two of them (lemma \<open>suffixes_exclusive\<close>
  below), so the order of the tests here does not matter.
\<close>

definition parseMemoryBytes :: "string \<Rightarrow> int" where
  "parseMemoryBytes mem =
     (if mem = [] then 0
      else if HasSuffix mem ''Ki'' then int64 (Sscanf_d (TrimSuffix mem ''Ki'') * 1024)
      else if HasSuffix mem ''Mi'' then int64 (Sscanf_d (TrimSuffix mem ''Mi'') * (1024 * 1024))
      else if HasSuffix mem ''Gi'' then int64 (Sscanf_d (TrimSuffix mem ''Gi'') * (1024 * 1024 * 1024))
      else if HasSuffix mem ''Ti'' then int64 (Sscanf_d (TrimSuffix mem ''Ti'') * (1024 * 1024 * 1024 * 1024))
      else Sscanf_d mem)"

definition check_resource_bounds ::
  "(string \<Rightarrow> int) \<Rightarrow> ResourceSpec \<Rightarrow> ValidationResult \<Rightarrow> ValidationResult" where
  "check_resource_bounds float_millis resources result =
     (let reqCPU = parseCPUMillis float_millis (rv_CPU (rs_Requests resources));
          limCPU = parseCPUMillis float_millis (rv_CPU (rs_Limits resources));
          result1 = (if reqCPU > 0 \<and> limCPU > 0 \<and> reqCPU > limCPU then
             append_issue result
               \<lparr>vi_Severity = SeverityError, vi_Category = ''resources'',
                vi_File = ''deployment.yaml'',
                vi_Message = ''Resource requests > limits: CPU request (''
                   @ rv_CPU (rs_Requests resources) @ '') > limit (''
                   @ rv_CPU (rs_Limits resources) @ '')'',
                vi_Suggestion = ''CPU request must be <= CPU limit''\<rparr>
           else result);
          reqMem = parseMemoryBytes (rv_Memory (rs_Requests resources));
          limMem = parseMemoryBytes (rv_Memory (rs_Limits resources))
      in if reqMem > 0 \<and> limMem > 0 \<and> reqMem > limMem then
           append_issue result1
             \<lparr>vi_Severity = SeverityError, vi_Category = ''resources'',
              vi_File = ''deployment.yaml'',
              vi_Message = ''Resource requests > limits: memory request (''
                 @ rv_Memory (rs_Requests resources) @ '') > limit (''
                 @ rv_Memory (rs_Limits resources) @ '')'',
              vi_Suggestion = ''Memory request must be <= memory limit''\<rparr>
         else result1)"

definition validateResourceRequestsVsLimits ::
  "(string \<Rightarrow> int) \<Rightarrow> AppAnalysis \<Rightarrow> Options \<Rightarrow> ValidationResult \<Rightarrow> ValidationResult" where
  "validateResourceRequestsVsLimits float_millis analysis opts result =
     check_resource_bounds float_millis (merged_resources analysis (o_Config opts)) result"

definition validateServicePortMatch :: "AppAnalysis \<Rightarrow> ValidationResult \<Rightarrow> ValidationResult" where
  "validateServicePortMatch analysis result =
     (if a_Ports analysis = [] then result
      else
        (case a_HealthCheck analysis of
           None \<Rightarrow> result
         | Some hc \<Rightarrow>
             if \<not> List.member (map p_Port (a_Ports analysis)) (hc_Port hc) then
               append_issue result
                 \<lparr>vi_Severity = SeverityWarning, vi_Category = ''ports'',
                  vi_File = ''deployment.yaml'',
                  vi_Message = ''Health check port '' @ fmt_d (hc_Port hc)
                     @ '' does not match any container port'',
                  vi_Suggestion =
                    ''Ensure health check port matches one of the exposed container ports''\<rparr>
             else result))"

text \<open>
  The scaling that the validator and the persona documents use: the app-config scaling
  when there is one, else the scaling of the analysis.
\<close>

definition resolve_scaling :: "AppAnalysis \<Rightarrow> ScalingConfig option" where
  "resolve_scaling analysis =
     (case a_AppConfig analysis of
        None \<Rightarrow> a_Scaling analysis
      | Some ac \<Rightarrow>
         (case ac_Scaling ac of
            None \<Rightarrow> a_Scaling analysis
          | Some s \<Rightarrow> Some s))"

definition validateHPAMinMax :: "ValidationResult \<Rightarrow> AppAnalysis \<Rightarrow> ValidationResult" where
  "validateHPAMinMax result analysis =
     (case resolve_scaling analysis of
        None \<Rightarrow> result
      | Some scaling \<Rightarrow>
          if sc_MinReplicas scaling > sc_MaxReplicas scaling then
            append_issue result
              \<lparr>vi_Severity = SeverityError, vi_Category = ''scaling'',
               vi_File = ''hpa.yaml'',
               vi_Message = ''HPA minReplicas ('' @ fmt_d (sc_MinReplicas scaling)
                  @ '') > maxReplicas ('' @ fmt_d (sc_MaxReplicas scaling) @ '')'',
               vi_Suggestion = ''Set minReplicas <= maxReplicas''\<rparr>
          else result)"

text \<open>The host of the endpoint document, as \<open>validateIngressHost\<close> and \<open>GenerateIngress\<close> compute it.\<close>

definition resolve_host :: "AppAnalysis \<Rightarrow> Config \<Rightarrow> string" where
  "resolve_host analysis cfg =
     (case a_AppConfig analysis of
        None \<Rightarrow> a_Name analysis @ cfg_Ingress_DomainSuffix cfg
      | Some ac \<Rightarrow>
         (case ac_Ingress ac of
            None \<Rightarrow> a_Name analysis @ cfg_Ingress_DomainSuffix cfg
          | Some ing \<Rightarrow>
              if ic_Host ing \<noteq> [] then ic_Host ing
              else a_Name analysis @ cfg_Ingress_DomainSuffix cfg))"

definition validateIngressHost ::
  "AppAnalysis \<Rightarrow> Options \<Rightarrow> ValidationResult \<Rightarrow> ValidationResult" where
  "validateIngressHost analysis opts result =
     (if resolve_host analysis (o_Config opts) = [] then
        append_issue result
          \<lparr>vi_Severity = SeverityWarning, vi_Category = ''ingress'',
           vi_File = ''ingress.yaml'',
           vi_Message = ''Ingress host is empty'',
           vi_Suggestion =
             ''Set ingress.host in .dorgu.yaml or ensure naming.domain_suffix is set in org config''\<rparr>
      else result)"

definition app_health :: "AppAnalysis \<Rightarrow> HealthContext option" where
  "app_health analysis =
     (case a_AppConfig analysis of None \<Rightarrow> None | Some ac \<Rightarrow> ac_Health ac)"

definition validateHealthProbes :: "AppAnalysis \<Rightarrow> ValidationResult \<Rightarrow> ValidationResult" where
  "validateHealthProbes analysis result =
     (let hasHealth = (app_health analysis \<noteq> None \<or> a_HealthCheck analysis \<noteq> None)
      in if \<not> hasHealth then
           append_issue result
             \<lparr>vi_Severity = SeverityWarning, vi_Category = ''health'',
              vi_File = ''deployment.yaml'',
              vi_Message = ''No health probes configured'',
              vi_Suggestion =
                ''Add health.liveness/readiness in .dorgu.yaml or implement a /health endpoint''\<rparr>
         else result)"

definition validateMissingRequiredFields ::
  "AppAnalysis \<Rightarrow> ValidationResult \<Rightarrow> ValidationResult" where
  "validateMissingRequiredFields analysis result =
     (let result1 = (if a_Name analysis = [] then
             append_issue result
               \<lparr>vi_Severity = SeverityError, vi_Category = ''metadata'',
                vi_File = ''deployment.yaml'',
                vi_Message = ''Missing required field: application name'',
                vi_Suggestion = ''Set app.name in .dorgu.yaml or use --name''\<rparr>
           else result)
      in if a_Repository analysis = [] then
           append_issue result1
             \<lparr>vi_Severity = SeverityInfo, vi_Category = ''metadata'',
              vi_File = ''argocd/application.yaml'',
              vi_Message = ''Repository URL not set'',
              vi_Suggestion =
                ''Set app.repository in .dorgu.yaml or ensure git remote origin is configured''\<rparr>
         else result1)"

text \<open>The first loop of \<open>ValidateGenerated\<close>: clear \<open>Passed\<close> at the first error and stop.\<close>

fun mark_passed :: "ValidationIssue list \<Rightarrow> ValidationResult \<Rightarrow> ValidationResult" where
  "mark_passed [] result = result"
| "mark_passed (issue # rest) result =
     (if vi_Severity issue = SeverityError then result\<lparr>vr_Passed := False\<rparr>
      else mark_passed rest result)"

text \<open>The second loop: the three counters.\<close>

fun count_severities :: "ValidationIssue list \<Rightarrow> nat \<times> nat \<times> nat \<Rightarrow> nat \<times> nat \<times> nat" where
  "count_severities [] acc = acc"
| "count_severities (issue # rest) (errors, warnings, infos) =
     count_severities rest
       (case vi_Severity issue of
          SeverityError \<Rightarrow> (errors + 1, warnings, infos)
        | SeverityWarning \<Rightarrow> (errors, warnings + 1, infos)
        | SeverityInfo \<Rightarrow> (errors, warnings, infos + 1))"

definition summary_of :: "ValidationIssue list \<Rightarrow> string" where
  "summary_of issues =
     (case count_severities issues (0, 0, 0) of (errors, warnings, infos) \<Rightarrow>
        if issues = [] then ''All validation checks passed''
        else
          (let parts = (if errors > 0 then [fmt_d (int errors) @ '' error(s)''] else [])
                 @ (if warnings > 0 then [fmt_d (int warnings) @ '' warning(s)''] else [])
                 @ (if infos > 0 then [fmt_d (int infos) @ '' info(s)''] else [])
           in ''Validation: '' @ Join parts '', ''))"

definition run_rules ::
  "(string \<Rightarrow> int) \<Rightarrow> AppAnalysis \<Rightarrow> Options \<Rightarrow> ValidationResult" where
  "run_rules float_millis analysis opts =
     (let result = \<lparr>vr_Issues = [], vr_Passed = True, vr_Summary = []\<rparr>;
          result = validateImagePlaceholder analysis opts result;
          result = validateResourceRequestsVsLimits float_millis analysis opts result;
          result = validateServicePortMatch analysis result;
          result = validateHPAMinMax result analysis;
          result = validateIngressHost analysis opts result;
          result = validateHealthProbes analysis result;
          result = validateMissingRequiredFields analysis result
      in result)"

definition ValidateGenerated ::
  "(string \<Rightarrow> int) \<Rightarrow> AppAnalysis \<Rightarrow> GeneratedFile list \<Rightarrow> Options \<Rightarrow> ValidationResult" where
  "ValidateGenerated float_millis analysis files opts =
     (let result = run_rules float_millis analysis opts;
          result = mark_passed (vr_Issues result) result
      in result\<lparr>vr_Summary := summary_of (vr_Issues result)\<rparr>)"

section \<open>Manifest objects (internal/generator)\<close>

text \<open>
  The structs that the generators fill and hand to \<open>toYAML\<close>. A struct with a single
  field nested in another is flattened (\<open>ip_Backend_Service_Port_Number\<close> is
  \<open>Backend.Service.Port.Number\<close> of an \<open>IngressPath\<close>).
\<close>

record Metadata =
  md_Name :: string
  md_Namespace :: string
  md_Labels :: "(string, string) mapping"
  md_Annotations :: "(string, string) mapping option"

record HTTPGetAction =
  hg_Path :: string
  hg_Port :: int
  hg_Scheme :: string

record Probe =
  pr_HTTPGet :: "HTTPGetAction option"
  pr_InitialDelaySeconds :: int
  pr_PeriodSeconds :: int
  pr_TimeoutSeconds :: int
  pr_FailureThreshold :: int

record ContainerPort =
  cp_Name :: string
  cp_ContainerPort :: int
  cp_Protocol :: string

record SecretKeySelector =
  sk_Name :: string
  sk_Key :: string

record ConfigMapKeySelector =
  ck_Name :: string
  ck_Key :: string

record EnvVarSource =
  es_SecretKeyRef :: "SecretKeySelector option"
  es_ConfigMapKeyRef :: "ConfigMapKeySelector option"

record ManifestEnvVar =
  me_Name :: string
  me_Value :: string
  me_ValueFrom :: "EnvVarSource option"

record ResourceRequirements =
  rr_Requests :: "(string, string) mapping"
  rr_Limits :: "(string, string) mapping"

record Capabilities =
  cap_Drop :: "string list"
  cap_Add :: "string list"

record ContainerSecurityContext =
  cs_AllowPrivilegeEscalation :: "bool option"
  cs_ReadOnlyRootFilesystem :: "bool option"
  cs_Capabilities :: "Capabilities option"

record PodSecurityContext =
  ps_RunAsNonRoot :: "bool option"
  ps_SeccompProfile_Type :: "string option"

record Container =
  c_Name :: string
  c_Image :: string
  c_Ports :: "ContainerPort list"
  c_Env :: "ManifestEnvVar list"
  c_Resources :: ResourceRequirements
  c_LivenessProbe :: "Probe option"
  c_ReadinessProbe :: "Probe option"
  c_SecurityContext :: "ContainerSecurityContext option"

record PodSpec =
  pod_Containers :: "Container list"
  pod_SecurityContext :: "PodSecurityContext option"
  pod_ServiceAccountName :: string

record PodTemplateSpec =
  pt_Metadata :: Metadata
  pt_Spec :: PodSpec

record DeploymentSpec =
  ds_Replicas :: int
  ds_Selector_MatchLabels :: "(string, string) mapping"
  ds_Template :: PodTemplateSpec

record DeploymentManifest =
  dm_APIVersion :: string
  dm_Kind :: string
  dm_Metadata :: Metadata
  dm_Spec :: DeploymentSpec

record ServicePort =
  svp_Name :: string
  svp_Port :: int
  svp_TargetPort :: int
  svp_Protocol :: string

record ServiceSpec =
  ss_Type :: string
  ss_Selector :: "(string, string) mapping"
  ss_Ports :: "ServicePort list"

record ServiceManifest =
  sm_APIVersion :: string
  sm_Kind :: string
  sm_Metadata :: Metadata
  sm_Spec :: ServiceSpec

record IngressTLS =
  it_Hosts :: "string list"
  it_SecretName :: string

record IngressPath =
  ip_Path :: string
  ip_PathType :: string
  ip_Backend_Service_Name :: string
  ip_Backend_Service_Port_Number :: int

record IngressRule =
  ir_Host :: string
  ir_HTTP_Paths :: "IngressPath list"

record IngressSpec =
  is_IngressClassName :: "string option"
  is_TLS :: "IngressTLS list"
  is_Rules :: "IngressRule list"

record IngressManifest =
  im_APIVersion :: string
  im_Kind :: string
  im_Metadata :: Metadata
  im_Spec :: IngressSpec

record ResourceMetric =
  rm_Name :: string
  rm_Target_Type :: string
  rm_Target_AverageUtilization :: int

record MetricSpec =
  ms_Type :: string
  ms_Resource :: "ResourceMetric option"

record ScaleTargetRef =
  st_APIVersion :: string
  st_Kind :: string
  st_Name :: string

record HPASpec =
  hs_ScaleTargetRef :: ScaleTargetRef
  hs_MinReplicas :: int
  hs_MaxReplicas :: int
  hs_Metrics :: "MetricSpec list"

record HPAManifest =
  hm_APIVersion :: string
  hm_Kind :: string
  hm_Metadata :: Metadata
  hm_Spec :: HPASpec

record ArgoCDSource =
  as_RepoURL :: string
  as_Path :: string
  as_TargetRevision :: string

record ArgoCDDest =
  ad_Server :: string
  ad_Namespace :: string

record ArgoCDAutomated =
  au_Prune :: bool
  au_SelfHeal :: bool

record ArgoCDSyncPolicy =
  asp_Automated :: "ArgoCDAutomated option"
  asp_SyncOptions :: "string list"

record ArgoCDAppSpec =
  aps_Project :: string
  aps_Source :: ArgoCDSource
  aps_Destination :: ArgoCDDest
  aps_SyncPolicy :: "ArgoCDSyncPolicy option"

record ArgoCDApplication =
  aa_APIVersion :: string
  aa_Kind :: string
  aa_Metadata :: Metadata
  aa_Spec :: ArgoCDAppSpec

text \<open>
  Go's \<open>error\<close> values, by their message. \<open>toYAML\<close> takes any of the manifest
  structs (an \<open>interface{}\<close> in the source): the sum \<open>manifest\<close>. The marshaller
  \<open>yaml.Marshal\<close> of \<open>sigs.k8s.io/yaml\<close> is outside the repository: \<open>toYAML\<close>
  is a parameter of every generator that serializes, an arbitrary function from the struct
  to the text or an error.
\<close>

datatype error = Error string

datatype manifest =
    DeploymentDoc DeploymentManifest
  | ServiceDoc ServiceManifest
  | IngressDoc IngressManifest
  | HPADoc HPAManifest
  | ArgoCDDoc ArgoCDApplication

type_synonym marshaller = "manifest \<Rightarrow> error + string"

subsection \<open>Labels and annotations\<close>

text \<open>
  \<open>for k, v := range m { labels[k] = v }\<close>: the entries of \<open>m\<close> are written over
  those of \<open>labels\<close>.
\<close>

definition overwrite ::
  "(string, string) mapping \<Rightarrow> (string, string) mapping \<Rightarrow> (string, string) mapping" where
  "overwrite labels m = Mapping.combine (\<lambda>old new. new) labels m"

definition buildLabelsWithAppConfig :: "AppAnalysis \<Rightarrow> Config \<Rightarrow> (string, string) mapping" where
  "buildLabelsWithAppConfig analysis cfg =
     (let labels = Mapping.of_alist
            [(''app.kubernetes.io/name'', a_Name analysis),
             (''app.kubernetes.io/managed-by'', ''dorgu'')];
          labels = (if a_Team analysis \<noteq> []
                    then Mapping.update ''app.kubernetes.io/team'' (a_Team analysis) labels
                    else labels);
          labels = (if a_Environment analysis \<noteq> []
                    then Mapping.update ''app.kubernetes.io/environment''
                           (a_Environment analysis) labels
                    else labels);
          labels = overwrite labels (cfg_Labels_Custom cfg)
      in case a_AppConfig analysis of
           None \<Rightarrow> labels
         | Some ac \<Rightarrow> overwrite labels (ac_Labels ac))"

definition buildAnnotationsWithAppConfig ::
  "AppAnalysis \<Rightarrow> Config \<Rightarrow> (string, string) mapping option" where
  "buildAnnotationsWithAppConfig analysis cfg =
     (let annotations = overwrite Mapping.empty (cfg_Annotations_Custom cfg);
          annotations = (case a_AppConfig analysis of
                           None \<Rightarrow> annotations
                         | Some ac \<Rightarrow> overwrite annotations (ac_Annotations ac))
      in if Mapping.is_empty annotations then None else Some annotations)"

subsection \<open>The workload document\<close>

definition container_ports :: "Port list \<Rightarrow> ContainerPort list" where
  "container_ports ports =
     map (\<lambda>(i, p). \<lparr>cp_Name = ''port-'' @ fmt_d (int i), cp_ContainerPort = p_Port p,
                     cp_Protocol = ''TCP''\<rparr>)
       (enumerate 0 ports)"

definition env_var :: "AppAnalysis \<Rightarrow> EnvVar \<Rightarrow> ManifestEnvVar" where
  "env_var analysis e =
     (if ev_Secret e then
        \<lparr>me_Name = ev_Name e, me_Value = [],
         me_ValueFrom = Some
           \<lparr>es_SecretKeyRef = Some \<lparr>sk_Name = ToLower (a_Name analysis) @ ''-secrets'',
                                       sk_Key = ToLower (ev_Name e)\<rparr>,
            es_ConfigMapKeyRef = None\<rparr>\<rparr>
      else if ev_Value e \<noteq> [] then
        \<lparr>me_Name = ev_Name e, me_Value = ev_Value e, me_ValueFrom = None\<rparr>
      else \<lparr>me_Name = ev_Name e, me_Value = [], me_ValueFrom = None\<rparr>)"

definition app_liveness_probe :: "HealthContext \<Rightarrow> Probe option" where
  "app_liveness_probe health =
     (if hx_LivenessPath health \<noteq> [] then
        Some \<lparr>pr_HTTPGet = Some \<lparr>hg_Path = hx_LivenessPath health,
                                   hg_Port = hx_LivenessPort health, hg_Scheme = []\<rparr>,
              pr_InitialDelaySeconds =
                (if hx_InitialDelay health = 0 then 10 else hx_InitialDelay health),
              pr_PeriodSeconds = (if hx_Period health = 0 then 10 else hx_Period health),
              pr_TimeoutSeconds = 5, pr_FailureThreshold = 3\<rparr>
      else None)"

definition app_readiness_probe :: "HealthContext \<Rightarrow> Probe option" where
  "app_readiness_probe health =
     (if hx_ReadinessPath health \<noteq> [] then
        Some \<lparr>pr_HTTPGet = Some \<lparr>hg_Path = hx_ReadinessPath health,
                                   hg_Port = hx_ReadinessPort health, hg_Scheme = []\<rparr>,
              pr_InitialDelaySeconds =
                (if hx_InitialDelay health = 0 then 5 else hx_InitialDelay health),
              pr_PeriodSeconds = (if hx_Period health = 0 then 5 else hx_Period health),
              pr_TimeoutSeconds = 5, pr_FailureThreshold = 3\<rparr>
      else None)"

definition fallback_probe :: "HealthCheck \<Rightarrow> Probe" where
  "fallback_probe hc =
     \<lparr>pr_HTTPGet = Some \<lparr>hg_Path = hc_Path hc, hg_Port = hc_Port hc, hg_Scheme = []\<rparr>,
      pr_InitialDelaySeconds = (if hc_InitialDelay hc > 0 then hc_InitialDelay hc else 10),
      pr_PeriodSeconds = (if hc_Period hc > 0 then hc_Period hc else 10),
      pr_TimeoutSeconds = 5, pr_FailureThreshold = 3\<rparr>"

text \<open>
  The pair (\<open>livenessProbe\<close>, \<open>readinessProbe\<close>) of \<open>GenerateDeployment\<close>: first from
  the app-config health settings, each probe under its own path test; then, only when
  there is still no liveness probe, both from the health check of the analysis.
\<close>

definition deployment_probes :: "AppAnalysis \<Rightarrow> Probe option \<times> Probe option" where
  "deployment_probes analysis =
     (let (livenessProbe, readinessProbe) =
            (case app_health analysis of
               None \<Rightarrow> (None, None)
             | Some health \<Rightarrow> (app_liveness_probe health, app_readiness_probe health))
      in case a_HealthCheck analysis of
           None \<Rightarrow> (livenessProbe, readinessProbe)
         | Some hc \<Rightarrow>
             if livenessProbe = None
             then (Some (fallback_probe hc), Some (fallback_probe hc))
             else (livenessProbe, readinessProbe))"

definition app_scaling :: "AppAnalysis \<Rightarrow> ScalingConfig option" where
  "app_scaling analysis =
     (case a_AppConfig analysis of None \<Rightarrow> None | Some ac \<Rightarrow> ac_Scaling ac)"

definition deployment_replicas :: "AppAnalysis \<Rightarrow> int" where
  "deployment_replicas analysis =
     (let from_analysis =
            (case a_Scaling analysis of
               None \<Rightarrow> 2
             | Some s \<Rightarrow> if sc_MinReplicas s > 0 then sc_MinReplicas s else 2)
      in case app_scaling analysis of
           None \<Rightarrow> from_analysis
         | Some s \<Rightarrow> if sc_MinReplicas s > 0 then sc_MinReplicas s else from_analysis)"

definition image_name :: "AppAnalysis \<Rightarrow> Config \<Rightarrow> string" where
  "image_name analysis cfg =
     (if cfg_CI_Registry cfg = [] then a_Name analysis @ '':latest''
      else cfg_CI_Registry cfg @ ''/'' @ a_Name analysis @ '':latest'')"

definition deployment_manifest ::
  "AppAnalysis \<Rightarrow> string \<Rightarrow> ResourceSpec \<Rightarrow> Config \<Rightarrow> DeploymentManifest" where
  "deployment_manifest analysis namespace resources cfg =
     (let labels = buildLabelsWithAppConfig analysis cfg;
          annotations = buildAnnotationsWithAppConfig analysis cfg;
          containerPorts = container_ports (a_Ports analysis);
          envVars = map (env_var analysis) (a_EnvVars analysis);
          finalResources = apply_resource_overrides analysis resources;
          (livenessProbe, readinessProbe) = deployment_probes analysis;
          podSecurityContext =
            \<lparr>ps_RunAsNonRoot = Some True, ps_SeccompProfile_Type = Some ''RuntimeDefault''\<rparr>;
          containerSecurityContext =
            \<lparr>cs_AllowPrivilegeEscalation = Some False, cs_ReadOnlyRootFilesystem = Some True,
             cs_Capabilities = Some \<lparr>cap_Drop = [''ALL''], cap_Add = []\<rparr>\<rparr>
      in \<lparr>dm_APIVersion = ''apps/v1'', dm_Kind = ''Deployment'',
          dm_Metadata = \<lparr>md_Name = a_Name analysis, md_Namespace = namespace,
                          md_Labels = labels, md_Annotations = annotations\<rparr>,
          dm_Spec =
            \<lparr>ds_Replicas = deployment_replicas analysis,
             ds_Selector_MatchLabels =
               Mapping.of_alist [(''app.kubernetes.io/name'', a_Name analysis)],
             ds_Template =
               \<lparr>pt_Metadata = \<lparr>md_Name = [], md_Namespace = [], md_Labels = labels,
                                 md_Annotations = annotations\<rparr>,
                pt_Spec =
                  \<lparr>pod_Containers =
                     [\<lparr>c_Name = a_Name analysis, c_Image = image_name analysis cfg,
                       c_Ports = containerPorts, c_Env = envVars,
                       c_Resources =
                         \<lparr>rr_Requests = Mapping.of_alist
                            [(''cpu'', rv_CPU (rs_Requests finalResources)),
                             (''memory'', rv_Memory (rs_Requests finalResources))],
                          rr_Limits = Mapping.of_alist
                            [(''cpu'', rv_CPU (rs_Limits finalResources)),
                             (''memory'', rv_Memory (rs_Limits finalResources))]\<rparr>,
                       c_LivenessProbe = livenessProbe, c_ReadinessProbe = readinessProbe,
                       c_SecurityContext = Some containerSecurityContext\<rparr>],
                   pod_SecurityContext = Some podSecurityContext,
                   pod_ServiceAccountName = []\<rparr>\<rparr>\<rparr>\<rparr>)"

definition GenerateDeployment ::
  "marshaller \<Rightarrow> AppAnalysis \<Rightarrow> string \<Rightarrow> ResourceSpec \<Rightarrow> Config \<Rightarrow> error + string" where
  "GenerateDeployment toYAML analysis namespace resources cfg =
     toYAML (DeploymentDoc (deployment_manifest analysis namespace resources cfg))"

subsection \<open>The network-exposure document\<close>

definition service_manifest :: "AppAnalysis \<Rightarrow> string \<Rightarrow> Config \<Rightarrow> ServiceManifest" where
  "service_manifest analysis namespace cfg =
     (let labels = buildLabelsWithAppConfig analysis cfg;
          annotations = buildAnnotationsWithAppConfig analysis cfg;
          servicePorts =
            map (\<lambda>(i, p). \<lparr>svp_Name = ''port-'' @ fmt_d (int i), svp_Port = p_Port p,
                            svp_TargetPort = p_Port p, svp_Protocol = ''TCP''\<rparr>)
              (enumerate 0 (a_Ports analysis))
      in \<lparr>sm_APIVersion = ''v1'', sm_Kind = ''Service'',
          sm_Metadata = \<lparr>md_Name = a_Name analysis, md_Namespace = namespace,
                          md_Labels = labels, md_Annotations = annotations\<rparr>,
          sm_Spec = \<lparr>ss_Type = ''ClusterIP'',
                      ss_Selector =
                        Mapping.of_alist [(''app.kubernetes.io/name'', a_Name analysis)],
                      ss_Ports = servicePorts\<rparr>\<rparr>)"

definition GenerateService ::
  "marshaller \<Rightarrow> AppAnalysis \<Rightarrow> string \<Rightarrow> Config \<Rightarrow> error + string" where
  "GenerateService toYAML analysis namespace cfg =
     toYAML (ServiceDoc (service_manifest analysis namespace cfg))"

subsection \<open>The endpoint document\<close>

definition app_ingress :: "AppAnalysis \<Rightarrow> IngressContext option" where
  "app_ingress analysis =
     (case a_AppConfig analysis of None \<Rightarrow> None | Some ac \<Rightarrow> ac_Ingress ac)"

text \<open>The loop that looks for the HTTP port, and the test after it.\<close>

fun first_http_port :: "Port list \<Rightarrow> int" where
  "first_http_port [] = 80"
| "first_http_port (p # ps) =
     (if p_Port p = 80 \<or> p_Port p = 8080 \<or> p_Port p = 3000 \<or> p_Port p = 5000
          \<or> p_Port p = 8000
      then p_Port p else first_http_port ps)"

definition http_port :: "Port list \<Rightarrow> int" where
  "http_port ports =
     (let httpPort = first_http_port ports
      in case ports of
           [] \<Rightarrow> httpPort
         | p # _ \<Rightarrow> if httpPort = 80 then p_Port p else httpPort)"

definition ingress_path :: "AppAnalysis \<Rightarrow> int \<Rightarrow> string \<Rightarrow> string \<Rightarrow> IngressPath" where
  "ingress_path analysis httpPort path pathType =
     \<lparr>ip_Path = path, ip_PathType = pathType,
      ip_Backend_Service_Name = a_Name analysis,
      ip_Backend_Service_Port_Number = httpPort\<rparr>"

definition ingress_manifest :: "AppAnalysis \<Rightarrow> string \<Rightarrow> Config \<Rightarrow> IngressManifest" where
  "ingress_manifest analysis namespace cfg =
     (let labels = buildLabelsWithAppConfig analysis cfg;
          annotations = (case buildAnnotationsWithAppConfig analysis cfg of
                           None \<Rightarrow> Mapping.empty
                         | Some m \<Rightarrow> m);
          tlsEnabled = (case app_ingress analysis of
                          None \<Rightarrow> cfg_Ingress_TLS_Enabled cfg
                        | Some ing \<Rightarrow>
                            if ic_TLSEnabled ing then True else cfg_Ingress_TLS_Enabled cfg);
          tlsSecret = (case app_ingress analysis of
                         None \<Rightarrow> a_Name analysis @ ''-tls''
                       | Some ing \<Rightarrow>
                           if ic_TLSSecret ing \<noteq> [] then ic_TLSSecret ing
                           else a_Name analysis @ ''-tls'');
          annotations = (if tlsEnabled \<and> cfg_Ingress_TLS_ClusterIssuer cfg \<noteq> []
                         then Mapping.update ''cert-manager.io/cluster-issuer''
                                (cfg_Ingress_TLS_ClusterIssuer cfg) annotations
                         else annotations);
          host = resolve_host analysis cfg;
          httpPort = http_port (a_Ports analysis);
          ingressPaths =
            (case app_ingress analysis of
               None \<Rightarrow> [ingress_path analysis httpPort ''/'' ''Prefix'']
             | Some ing \<Rightarrow>
                 if length (ic_Paths ing) > 0 then
                   map (\<lambda>p. ingress_path analysis httpPort (ipd_Path p)
                              (if ipd_PathType p = [] then ''Prefix'' else ipd_PathType p))
                     (ic_Paths ing)
                 else [ingress_path analysis httpPort ''/'' ''Prefix''])
      in \<lparr>im_APIVersion = ''networking.k8s.io/v1'', im_Kind = ''Ingress'',
          im_Metadata = \<lparr>md_Name = a_Name analysis, md_Namespace = namespace,
                          md_Labels = labels, md_Annotations = Some annotations\<rparr>,
          im_Spec =
            \<lparr>is_IngressClassName = Some (cfg_Ingress_Class cfg),
             is_TLS = (if tlsEnabled
                       then [\<lparr>it_Hosts = [host], it_SecretName = tlsSecret\<rparr>] else []),
             is_Rules = [\<lparr>ir_Host = host, ir_HTTP_Paths = ingressPaths\<rparr>]\<rparr>\<rparr>)"

definition GenerateIngress ::
  "marshaller \<Rightarrow> AppAnalysis \<Rightarrow> string \<Rightarrow> Config \<Rightarrow> error + string" where
  "GenerateIngress toYAML analysis namespace cfg =
     toYAML (IngressDoc (ingress_manifest analysis namespace cfg))"

subsection \<open>The autoscaling document\<close>

text \<open>
  The four values that \<open>GenerateHPA\<close> resolves: from the defaults 2, 10, 70 and 0,
  each replaced by the field of the chosen scaling when that field is positive. The chosen
  scaling is the app-config one when present, else the one of the analysis.
\<close>

definition hpa_values :: "AppAnalysis \<Rightarrow> int \<times> int \<times> int \<times> int" where
  "hpa_values analysis =
     (let from_scaling = (\<lambda>scaling.
            (if sc_MinReplicas scaling > 0 then sc_MinReplicas scaling else 2,
             if sc_MaxReplicas scaling > 0 then sc_MaxReplicas scaling else 10,
             if sc_TargetCPU scaling > 0 then sc_TargetCPU scaling else 70,
             if sc_TargetMemory scaling > 0 then sc_TargetMemory scaling else 0))
      in case app_scaling analysis of
           Some scaling \<Rightarrow> from_scaling scaling
         | None \<Rightarrow>
            (case a_Scaling analysis of
               Some scaling \<Rightarrow> from_scaling scaling
             | None \<Rightarrow> (2, 10, 70, 0)))"

definition utilization_metric :: "string \<Rightarrow> int \<Rightarrow> MetricSpec" where
  "utilization_metric name target =
     \<lparr>ms_Type = ''Resource'',
      ms_Resource = Some \<lparr>rm_Name = name, rm_Target_Type = ''Utilization'',
                           rm_Target_AverageUtilization = target\<rparr>\<rparr>"

definition hpa_manifest :: "AppAnalysis \<Rightarrow> string \<Rightarrow> Config \<Rightarrow> HPAManifest" where
  "hpa_manifest analysis namespace cfg =
     (let labels = buildLabelsWithAppConfig analysis cfg;
          (minReplicas, maxReplicas, targetCPU, targetMemory) = hpa_values analysis;
          metrics = [utilization_metric ''cpu'' targetCPU]
                    @ (if targetMemory > 0 then [utilization_metric ''memory'' targetMemory]
                       else [])
      in \<lparr>hm_APIVersion = ''autoscaling/v2'', hm_Kind = ''HorizontalPodAutoscaler'',
          hm_Metadata = \<lparr>md_Name = a_Name analysis, md_Namespace = namespace,
                          md_Labels = labels, md_Annotations = None\<rparr>,
          hm_Spec = \<lparr>hs_ScaleTargetRef = \<lparr>st_APIVersion = ''apps/v1'', st_Kind = ''Deployment'',
                                           st_Name = a_Name analysis\<rparr>,
                      hs_MinReplicas = minReplicas, hs_MaxReplicas = maxReplicas,
                      hs_Metrics = metrics\<rparr>\<rparr>)"

definition GenerateHPA ::
  "marshaller \<Rightarrow> AppAnalysis \<Rightarrow> string \<Rightarrow> Config \<Rightarrow> error + string" where
  "GenerateHPA toYAML analysis namespace cfg =
     toYAML (HPADoc (hpa_manifest analysis namespace cfg))"

subsection \<open>The GitOps application document\<close>

definition repo_url :: "AppAnalysis \<Rightarrow> string" where
  "repo_url analysis =
     (if a_Repository analysis \<noteq> [] then a_Repository analysis
      else case a_AppConfig analysis of
             None \<Rightarrow> ''https://github.com/YOUR_ORG/'' @ a_Name analysis @ ''.git''
           | Some ac \<Rightarrow>
               if ac_Repository ac \<noteq> [] then ac_Repository ac
               else ''https://github.com/YOUR_ORG/'' @ a_Name analysis @ ''.git'')"

definition argocd_application :: "AppAnalysis \<Rightarrow> string \<Rightarrow> Config \<Rightarrow> ArgoCDApplication" where
  "argocd_application analysis namespace cfg =
     (let labels = buildLabelsWithAppConfig analysis cfg;
          repoURL = repo_url analysis
      in \<lparr>aa_APIVersion = ''argoproj.io/v1alpha1'', aa_Kind = ''Application'',
          aa_Metadata = \<lparr>md_Name = a_Name analysis, md_Namespace = ''argocd'',
                          md_Labels = labels, md_Annotations = None\<rparr>,
          aa_Spec =
            \<lparr>aps_Project = cfg_ArgoCD_Project cfg,
             aps_Source = \<lparr>as_RepoURL = repoURL, as_Path = ''k8s'',
                            as_TargetRevision = ''HEAD''\<rparr>,
             aps_Destination = \<lparr>ad_Server = cfg_ArgoCD_Destination_Server cfg,
                                 ad_Namespace = namespace\<rparr>,
             aps_SyncPolicy = Some
               \<lparr>asp_Automated = Some \<lparr>au_Prune = cfg_ArgoCD_Prune cfg,
                                         au_SelfHeal = cfg_ArgoCD_SelfHeal cfg\<rparr>,
                asp_SyncOptions = [''CreateNamespace=true'']\<rparr>\<rparr>\<rparr>)"

definition GenerateArgoCD ::
  "marshaller \<Rightarrow> AppAnalysis \<Rightarrow> string \<Rightarrow> Config \<Rightarrow> error + string" where
  "GenerateArgoCD toYAML analysis namespace cfg =
     toYAML (ArgoCDDoc (argocd_application analysis namespace cfg))"

subsection \<open>The CI pipeline document\<close>

text \<open>
  The template of \<open>GenerateGitHubActions\<close>, cut at its three \<open>%s\<close>: the registry, the
  image name and the application name go between the four pieces.
\<close>

definition workflow_head :: string where
  "workflow_head =
       ''name: Build and Deploy\<newline>''
       @ ''\<newline>''
       @ ''on:\<newline>''
       @ ''  push:\<newline>''
       @ ''    branches:\<newline>''
       @ ''      - main\<newline>''
       @ ''      - master\<newline>''
       @ ''  pull_request:\<newline>''
       @ ''    branches:\<newline>''
       @ ''      - main\<newline>''
       @ ''      - master\<newline>''
       @ ''\<newline>''
       @ ''env:\<newline>''
       @ ''  REGISTRY: ''"

definition workflow_image :: string where
  "workflow_image =
       ''\<newline>''
       @ ''  IMAGE_NAME: ''"

definition workflow_jobs :: string where
  "workflow_jobs =
       ''\<newline>''
       @ ''\<newline>''
       @ ''jobs:\<newline>''
       @ ''  build:\<newline>''
       @ ''    runs-on: ubuntu-latest\<newline>''
       @ ''    permissions:\<newline>''
       @ ''      contents: read\<newline>''
       @ ''      packages: write\<newline>''
       @ ''\<newline>''
       @ ''    steps:\<newline>''
       @ ''      - name: Checkout repository\<newline>''
       @ ''        uses: actions/checkout@v4\<newline>''
       @ ''\<newline>''
       @ ''      - name: Set up Docker Buildx\<newline>''
       @ ''        uses: docker/setup-buildx-action@v3\<newline>''
       @ ''\<newline>''
       @ ''      - name: Log in to Container Registry\<newline>''
       @ ''        if: github.event_name != '' @ [CHR 0x27] @ ''pull_request'' @ [CHR 0x27] @ ''\<newline>''
       @ ''        uses: docker/login-action@v3\<newline>''
       @ ''        with:\<newline>''
       @ ''          registry: ${{ env.REGISTRY }}\<newline>''
       @ ''          username: ${{ github.actor }}\<newline>''
       @ ''          password: ${{ secrets.GITHUB_TOKEN }}\<newline>''
       @ ''\<newline>''
       @ ''      - name: Extract metadata\<newline>''
       @ ''        id: meta\<newline>''
       @ ''        uses: docker/metadata-action@v5\<newline>''
       @ ''        with:\<newline>''
       @ ''          images: ${{ env.IMAGE_NAME }}\<newline>''
       @ ''          tags: |\<newline>''
       @ ''            type=ref,event=branch\<newline>''
       @ ''            type=ref,event=pr\<newline>''
       @ ''            type=sha,prefix=\<newline>''
       @ ''            type=raw,value=latest,enable={{is_default_branch}}\<newline>''
       @ ''\<newline>''
       @ ''      - name: Build and push\<newline>''
       @ ''        uses: docker/build-push-action@v5\<newline>''
       @ ''        with:\<newline>''
       @ ''          context: .\<newline>''
       @ ''          push: ${{ github.event_name != '' @ [CHR 0x27] @ ''pull_request'' @ [CHR 0x27] @ '' }}\<newline>''
       @ ''          tags: ${{ steps.meta.outputs.tags }}\<newline>''
       @ ''          labels: ${{ steps.meta.outputs.labels }}\<newline>''
       @ ''          cache-from: type=gha\<newline>''
       @ ''          cache-to: type=gha,mode=max\<newline>''
       @ ''\<newline>''
       @ ''  deploy:\<newline>''
       @ ''    needs: build\<newline>''
       @ ''    runs-on: ubuntu-latest\<newline>''
       @ ''    if: github.event_name != '' @ [CHR 0x27] @ ''pull_request'' @ [CHR 0x27] @ ''\<newline>''
       @ ''    \<newline>''
       @ ''    steps:\<newline>''
       @ ''      - name: Checkout repository\<newline>''
       @ ''        uses: actions/checkout@v4\<newline>''
       @ ''\<newline>''
       @ ''      - name: Update image tag in manifests\<newline>''
       @ ''        run: |\<newline>''
       @ ''          SHORT_SHA=$(echo ${{ github.sha }} | cut -c1-7)\<newline>''
       @ ''          sed -i '' @ [CHR 0x22] @ ''s|image: .*''"

definition workflow_tail :: string where
  "workflow_tail =
       ''.*|image: ${{ env.IMAGE_NAME }}:${SHORT_SHA}|g'' @ [CHR 0x22] @ '' k8s/deployment.yaml\<newline>''
       @ ''\<newline>''
       @ ''      - name: Commit and push changes\<newline>''
       @ ''        run: |\<newline>''
       @ ''          git config --local user.email '' @ [CHR 0x22] @ ''github-actions[bot]@users.noreply.github.com'' @ [CHR 0x22] @ ''\<newline>''
       @ ''          git config --local user.name '' @ [CHR 0x22] @ ''github-actions[bot]'' @ [CHR 0x22] @ ''\<newline>''
       @ ''          git add k8s/\<newline>''
       @ ''          git diff --staged --quiet || git commit -m '' @ [CHR 0x22] @ ''chore: update image to ${{ github.sha }}'' @ [CHR 0x22] @ ''\<newline>''
       @ ''          git push\<newline>''"

definition GenerateGitHubActions :: "AppAnalysis \<Rightarrow> Config \<Rightarrow> error + string" where
  "GenerateGitHubActions analysis cfg =
     (let registry = (if cfg_CI_Registry cfg = []
                      then ''ghcr.io/${{ github.repository_owner }}'' else cfg_CI_Registry cfg);
          imageName = registry @ ''/'' @ a_Name analysis
      in Inr (workflow_head @ registry @ workflow_image @ imageName @ workflow_jobs
              @ a_Name analysis @ workflow_tail))"

subsection \<open>The free-text persona\<close>

text \<open>
  \<open>generatePersona\<close> asks a language model over the network: \<open>llm.NewClient\<close>
  reads the environment and the user's configuration for a key, and
  \<open>client.GeneratePersona\<close> sends the request. Both are outside the generator package
  and neither is a function of the arguments alone, so the reply (or the error) is a
  parameter here: a function of the provider and the analysis that stands for one state of
  the environment.
\<close>

type_synonym persona_service = "string \<Rightarrow> AppAnalysis \<Rightarrow> error + string"

definition generatePersona :: "persona_service \<Rightarrow> AppAnalysis \<Rightarrow> Config \<Rightarrow> error + string" where
  "generatePersona llm analysis cfg = llm (cfg_LLM_Provider cfg) analysis"

definition formatPorts :: "Port list \<Rightarrow> string" where
  "formatPorts ports =
     (if ports = [] then ''No ports exposed.''
      else concat (map (\<lambda>p. ''- Port '' @ fmt_d (p_Port p) @ '' ('' @ p_Protocol p @ ''): ''
                              @ p_Purpose p @ ''\<newline>'') ports))"

definition formatDependencies :: "string list \<Rightarrow> string" where
  "formatDependencies deps =
     (if deps = [] then ''No external dependencies detected.''
      else concat (map (\<lambda>d. ''- '' @ d @ ''\<newline>'') deps))"

definition formatScalingDetails :: "AppAnalysis \<Rightarrow> string" where
  "formatScalingDetails analysis =
     (case resolve_scaling analysis of
        None \<Rightarrow> ''No auto-scaling configured''
      | Some scaling \<Rightarrow>
          ''Min '' @ fmt_d (sc_MinReplicas scaling) @ '' replicas, Max ''
          @ fmt_d (sc_MaxReplicas scaling) @ '' replicas''
          @ (if sc_TargetCPU scaling > 0
             then '', Target CPU '' @ fmt_d (sc_TargetCPU scaling) @ ''%'' else [])
          @ (if sc_TargetMemory scaling > 0
             then '', Target Memory '' @ fmt_d (sc_TargetMemory scaling) @ ''%'' else []))"

definition formatHealthCheck :: "HealthCheck option \<Rightarrow> string" where
  "formatHealthCheck hc =
     (case hc of
        None \<Rightarrow> ''No health check configured.''
      | Some h \<Rightarrow> ''- **Health endpoint:** '' @ hc_Path h @ ''\<newline>'')"

definition app_operations :: "AppAnalysis \<Rightarrow> OperationsContext option" where
  "app_operations analysis =
     (case a_AppConfig analysis of None \<Rightarrow> None | Some ac \<Rightarrow> ac_Operations ac)"

definition operations_notes :: "AppAnalysis \<Rightarrow> string" where
  "operations_notes analysis =
     (case app_operations analysis of
        None \<Rightarrow> ''*Add operational notes here after deploying the application.*''
      | Some ops \<Rightarrow>
          (let notes =
                 (if oc_Runbook ops \<noteq> []
                  then ''- **Runbook:** '' @ oc_Runbook ops @ ''\<newline>'' else [])
               @ (if oc_OnCall ops \<noteq> []
                  then ''- **On-Call:** '' @ oc_OnCall ops @ ''\<newline>'' else [])
               @ (if oc_MaintenanceWindow ops \<noteq> []
                  then ''- **Maintenance Window:** '' @ oc_MaintenanceWindow ops @ ''\<newline>''
                  else [])
               @ (if length (oc_Alerts ops) > 0
                  then ''\<newline>### Configured Alerts\<newline>''
                       @ concat (map (\<lambda>alert. ''- '' @ alert @ ''\<newline>'') (oc_Alerts ops))
                  else [])
           in if notes = []
              then ''*Add operational notes here after deploying the application.*''
              else notes))"

definition dependencies_section :: "AppAnalysis \<Rightarrow> string" where
  "dependencies_section analysis =
     (case a_AppConfig analysis of
        None \<Rightarrow> formatDependencies (a_Dependencies analysis)
      | Some ac \<Rightarrow>
          if length (ac_Dependencies ac) > 0 then
            concat (map (\<lambda>dep. ''- **'' @ dc_Name dep @ ''** ('' @ dc_Type dep @ '')''
                               @ (if dc_Required dep then '' (required)'' else [])
                               @ ''\<newline>'')
                      (ac_Dependencies ac))
          else formatDependencies (a_Dependencies analysis))"

definition generateBasicPersona :: "AppAnalysis \<Rightarrow> string" where
  "generateBasicPersona analysis =
     (let description = (case a_AppConfig analysis of
                           None \<Rightarrow> a_Description analysis
                         | Some ac \<Rightarrow>
                             if ac_Description ac \<noteq> [] then ac_Description ac
                             else a_Description analysis);
          description = (if description = []
                         then ''A containerized '' @ a_Type analysis @ '' application''
                         else description);
          team = (if a_Team analysis \<noteq> [] then a_Team analysis else ''[PLACEHOLDER]'');
          contact = (if a_Owner analysis \<noteq> [] then a_Owner analysis else ''[PLACEHOLDER]'');
          repository = (if a_Repository analysis \<noteq> [] then a_Repository analysis
                        else ''[PLACEHOLDER]'');
          operationsNotes = operations_notes analysis;
          depsSection = dependencies_section analysis;
          contextSection = (case a_AppConfig analysis of
                              None \<Rightarrow> []
                            | Some ac \<Rightarrow>
                                if ac_Instructions ac \<noteq> []
                                then ''\<newline>\<newline>## Application Context\<newline>\<newline>''
                                     @ ac_Instructions ac
                                else [])
      in   ''# ''
         @ a_Name analysis
         @ ''\<newline>''
           @ ''\<newline>''
           @ ''## Overview\<newline>''
           @ ''\<newline>''
         @ description @ contextSection
         @ ''\<newline>''
           @ ''\<newline>''
           @ ''## Technical Stack\<newline>''
           @ ''\<newline>''
           @ ''- **Language:** ''
         @ a_Language analysis
         @ ''\<newline>''
           @ ''- **Framework:** ''
         @ a_Framework analysis
         @ ''\<newline>''
           @ ''- **Type:** ''
         @ a_Type analysis
         @ ''\<newline>''
           @ ''\<newline>''
           @ ''## API/Interfaces\<newline>''
           @ ''\<newline>''
         @ formatPorts (a_Ports analysis)
         @ ''\<newline>''
           @ ''\<newline>''
           @ ''## External Dependencies\<newline>''
           @ ''\<newline>''
         @ depsSection
         @ ''\<newline>''
           @ ''\<newline>''
           @ ''## Resource Profile\<newline>''
           @ ''\<newline>''
           @ ''- **Profile:** ''
         @ a_ResourceProfile analysis
         @ ''\<newline>''
           @ ''- **Scaling:** ''
         @ formatScalingDetails analysis
         @ ''\<newline>''
           @ ''\<newline>''
           @ ''## Health & Monitoring\<newline>''
           @ ''\<newline>''
         @ formatHealthCheck (a_HealthCheck analysis)
         @ ''\<newline>''
           @ ''\<newline>''
           @ ''## Ownership\<newline>''
           @ ''\<newline>''
           @ ''- **Team:** ''
         @ team
         @ ''\<newline>''
           @ ''- **Contact:** ''
         @ contact
         @ ''\<newline>''
           @ ''- **Repository:** ''
         @ repository
         @ ''\<newline>''
           @ ''\<newline>''
           @ ''## Operational Notes\<newline>''
           @ ''\<newline>''
         @ operationsNotes
         @ ''\<newline>'')"

subsection \<open>The structured persona\<close>

text \<open>
  \<open>GeneratePersonaYAML\<close> writes its text into a \<open>strings.Builder\<close>; each
  \<open>write\<close> function of the source is here the text it appends.
\<close>

definition writeResources :: "AppAnalysis \<Rightarrow> Config \<Rightarrow> string" where
  "writeResources analysis cfg =
     (let resources = merged_resources analysis cfg;
          profile = (if a_ResourceProfile analysis = [] then ''standard''
                     else a_ResourceProfile analysis)
      in ''  resources:\<newline>''
         @ ''    requests:\<newline>''
         @ ''      cpu: '' @ [CHR 0x22] @ rv_CPU (rs_Requests resources) @ [CHR 0x22] @ ''\<newline>''
         @ ''      memory: '' @ [CHR 0x22] @ rv_Memory (rs_Requests resources) @ [CHR 0x22] @ ''\<newline>''
         @ ''    limits:\<newline>''
         @ ''      cpu: '' @ [CHR 0x22] @ rv_CPU (rs_Limits resources) @ [CHR 0x22] @ ''\<newline>''
         @ ''      memory: '' @ [CHR 0x22] @ rv_Memory (rs_Limits resources) @ [CHR 0x22] @ ''\<newline>''
         @ ''    profile: '' @ profile @ ''\<newline>'')"

definition writeScaling :: "AppAnalysis \<Rightarrow> string" where
  "writeScaling analysis =
     (case resolve_scaling analysis of
        None \<Rightarrow> []
      | Some scaling \<Rightarrow>
          ''  scaling:\<newline>''
          @ ''    minReplicas: '' @ fmt_d (sc_MinReplicas scaling) @ ''\<newline>''
          @ ''    maxReplicas: '' @ fmt_d (sc_MaxReplicas scaling) @ ''\<newline>''
          @ (if sc_TargetCPU scaling > 0
             then ''    targetCPU: '' @ fmt_d (sc_TargetCPU scaling) @ ''\<newline>'' else [])
          @ (if sc_TargetMemory scaling > 0
             then ''    targetMemory: '' @ fmt_d (sc_TargetMemory scaling) @ ''\<newline>'' else [])
          @ ''    behavior: ''
          @ (if sc_Behavior scaling = [] then ''balanced'' else sc_Behavior scaling)
          @ ''\<newline>'')"

text \<open>
  The four local variables of \<open>writeHealth\<close> after its two fallbacks: the liveness
  path, the readiness path, the port and the startup grace period.
\<close>

definition health_values :: "AppAnalysis \<Rightarrow> string \<times> string \<times> int \<times> string" where
  "health_values analysis =
     (let (livenessPath, readinessPath, healthPort, startupGracePeriod) =
            (case app_health analysis of
               None \<Rightarrow> ([], [], 0, [])
             | Some h \<Rightarrow>
                 (hx_LivenessPath h, hx_ReadinessPath h,
                  (if hx_LivenessPort h > 0 then hx_LivenessPort h
                   else if hx_ReadinessPort h > 0 then hx_ReadinessPort h else 0),
                  hx_StartupGracePeriod h));
          (livenessPath, healthPort) =
            (case a_HealthCheck analysis of
               None \<Rightarrow> (livenessPath, healthPort)
             | Some hc \<Rightarrow>
                 if livenessPath = [] then (hc_Path hc, hc_Port hc)
                 else (livenessPath, healthPort));
          readinessPath = (if readinessPath = [] then livenessPath else readinessPath)
      in (livenessPath, readinessPath, healthPort, startupGracePeriod))"

definition writeHealth :: "AppAnalysis \<Rightarrow> string" where
  "writeHealth analysis =
     (let (livenessPath, readinessPath, healthPort, startupGracePeriod) =
            health_values analysis
      in if livenessPath = [] \<and> readinessPath = [] then []
         else
           ''  health:\<newline>''
           @ (if livenessPath \<noteq> []
              then ''    livenessPath: '' @ livenessPath @ ''\<newline>'' else [])
           @ (if readinessPath \<noteq> []
              then ''    readinessPath: '' @ readinessPath @ ''\<newline>'' else [])
           @ (if healthPort > 0
              then ''    port: '' @ fmt_d healthPort @ ''\<newline>'' else [])
           @ ''    startupGracePeriod: '' @ [CHR 0x22]
           @ (if startupGracePeriod = [] then ''30s'' else startupGracePeriod)
           @ [CHR 0x22] @ ''\<newline>'')"

definition writeDependencies :: "AppAnalysis \<Rightarrow> string" where
  "writeDependencies analysis =
     (case a_AppConfig analysis of
        None \<Rightarrow> []
      | Some ac \<Rightarrow>
          if length (ac_Dependencies ac) = 0 then []
          else
            ''  dependencies:\<newline>''
            @ concat (map (\<lambda>dep.
                ''    - name: '' @ dc_Name dep @ ''\<newline>''
                @ (if dc_Type dep \<noteq> []
                   then ''      type: '' @ dc_Type dep @ ''\<newline>'' else [])
                @ ''      required: '' @ fmt_t (dc_Required dep) @ ''\<newline>''
                @ (if dc_HealthCheck dep \<noteq> []
                   then ''      healthCheck: '' @ [CHR 0x22] @ dc_HealthCheck dep @ [CHR 0x22]
                        @ ''\<newline>''
                   else []))
              (ac_Dependencies ac)))"

definition writeNetworking :: "AppAnalysis \<Rightarrow> Config \<Rightarrow> string" where
  "writeNetworking analysis cfg =
     (if length (a_Ports analysis) = 0 then []
      else
        ''  networking:\<newline>''
        @ ''    ports:\<newline>''
        @ concat (map (\<lambda>p.
            ''      - port: '' @ fmt_d (p_Port p) @ ''\<newline>''
            @ ''        protocol: '' @ (if p_Protocol p = [] then ''TCP'' else p_Protocol p)
            @ ''\<newline>''
            @ (if p_Purpose p \<noteq> []
               then ''        purpose: '' @ p_Purpose p @ ''\<newline>'' else []))
          (a_Ports analysis))
        @ (case app_ingress analysis of
             None \<Rightarrow> []
           | Some ing \<Rightarrow>
               if ic_Enabled ing then
                 ''    ingress:\<newline>''
                 @ ''      enabled: true\<newline>''
                 @ (if ic_Host ing \<noteq> [] then ''      host: '' @ ic_Host ing @ ''\<newline>''
                    else if a_Name analysis \<noteq> []
                    then ''      host: '' @ a_Name analysis @ cfg_Ingress_DomainSuffix cfg
                         @ ''\<newline>''
                    else [])
                 @ (if length (ic_Paths ing) > 0
                    then ''      paths:\<newline>''
                         @ concat (map (\<lambda>p. ''        - '' @ ipd_Path p @ ''\<newline>'')
                                     (ic_Paths ing))
                    else [])
                 @ ''      tlsEnabled: '' @ fmt_t (ic_TLSEnabled ing) @ ''\<newline>''
               else []))"

definition writeOwnership :: "AppAnalysis \<Rightarrow> string" where
  "writeOwnership analysis =
     (let hasOwnership =
            (a_Team analysis \<noteq> [] \<or> a_Owner analysis \<noteq> [] \<or> a_Repository analysis \<noteq> []);
          hasOwnership =
            (case app_operations analysis of
               None \<Rightarrow> hasOwnership
             | Some ops \<Rightarrow>
                 if oc_OnCall ops \<noteq> [] \<or> oc_Runbook ops \<noteq> [] then True else hasOwnership)
      in if \<not> hasOwnership then []
         else
           ''  ownership:\<newline>''
           @ (if a_Team analysis \<noteq> []
              then ''    team: '' @ a_Team analysis @ ''\<newline>'' else [])
           @ (if a_Owner analysis \<noteq> []
              then ''    owner: '' @ a_Owner analysis @ ''\<newline>'' else [])
           @ (if a_Repository analysis \<noteq> []
              then ''    repository: '' @ a_Repository analysis @ ''\<newline>'' else [])
           @ (case app_operations analysis of
                None \<Rightarrow> []
              | Some ops \<Rightarrow>
                  (if oc_OnCall ops \<noteq> []
                   then ''    oncall: '' @ oc_OnCall ops @ ''\<newline>'' else [])
                  @ (if oc_Runbook ops \<noteq> []
                     then ''    runbook: '' @ oc_Runbook ops @ ''\<newline>'' else [])))"

definition app_deployment_policy :: "AppAnalysis \<Rightarrow> DeploymentPolicyContext option" where
  "app_deployment_policy analysis =
     (case a_AppConfig analysis of None \<Rightarrow> None | Some ac \<Rightarrow> ac_DeploymentPolicy ac)"

definition writePolicies :: "AppAnalysis \<Rightarrow> Config \<Rightarrow> string" where
  "writePolicies analysis cfg =
     (let (strategy, maxSurge, maxUnavailable) =
            (case app_deployment_policy analysis of
               None \<Rightarrow> (''RollingUpdate'', ''25%'', ''25%'')
             | Some dp \<Rightarrow>
                 (if dp_Strategy dp \<noteq> [] then dp_Strategy dp else ''RollingUpdate'',
                  if dp_MaxSurge dp \<noteq> [] then dp_MaxSurge dp else ''25%'',
                  if dp_MaxUnavailable dp \<noteq> [] then dp_MaxUnavailable dp else ''25%''));
          (maintenanceWindow, autoRestart) =
            (case app_operations analysis of
               None \<Rightarrow> ([], False)
             | Some ops \<Rightarrow> (oc_MaintenanceWindow ops, oc_AutoRestart ops))
      in ''  policies:\<newline>''
         @ ''    security:\<newline>''
         @ ''      runAsNonRoot: '' @ fmt_t (cfg_Security_RunAsNonRoot cfg) @ ''\<newline>''
         @ ''      readOnlyRootFilesystem: '' @ fmt_t (cfg_Security_ReadOnlyRootFilesystem cfg)
         @ ''\<newline>''
         @ ''      allowPrivilegeEscalation: ''
         @ fmt_t (cfg_Security_AllowPrivilegeEscalation cfg) @ ''\<newline>''
         @ ''    deployment:\<newline>''
         @ ''      strategy: '' @ strategy @ ''\<newline>''
         @ ''      maxSurge: '' @ [CHR 0x22] @ maxSurge @ [CHR 0x22] @ ''\<newline>''
         @ ''      maxUnavailable: '' @ [CHR 0x22] @ maxUnavailable @ [CHR 0x22] @ ''\<newline>''
         @ ''    maintenance:\<newline>''
         @ (if maintenanceWindow \<noteq> []
            then ''      window: '' @ [CHR 0x22] @ maintenanceWindow @ [CHR 0x22] @ ''\<newline>''
            else [])
         @ ''      autoRestart: '' @ fmt_t autoRestart @ ''\<newline>'')"

text \<open>\<open>strings.ReplaceAll(s, "\n", "\n      ")\<close>: six blanks after every newline.\<close>

definition indent_lines :: "string \<Rightarrow> string" where
  "indent_lines s = concat (map (\<lambda>c. if c = CHR 0x0A then ''\<newline>      '' else [c]) s)"

definition GeneratePersonaYAML :: "AppAnalysis \<Rightarrow> string \<Rightarrow> Config \<Rightarrow> error + string" where
  "GeneratePersonaYAML analysis namespace0 cfg =
     (if a_Name analysis = []
      then Inl (Error ''application name is required for persona generation'')
      else
        (let namespace = (if namespace0 = [] then ''default'' else namespace0);
             appType = (if a_Type analysis = [] then ''api'' else a_Type analysis);
             tier = (case a_AppConfig analysis of
                       None \<Rightarrow> ''standard''
                     | Some ac \<Rightarrow> if ac_Tier ac \<noteq> [] then ac_Tier ac else ''standard'')
         in Inr
           (''apiVersion: dorgu.io/v1\<newline>''
            @ ''kind: ApplicationPersona\<newline>''
            @ ''metadata:\<newline>''
            @ ''  name: '' @ a_Name analysis @ ''\<newline>''
            @ ''  namespace: '' @ namespace @ ''\<newline>''
            @ ''  labels:\<newline>''
            @ ''    app.kubernetes.io/managed-by: dorgu\<newline>''
            @ (if a_Team analysis \<noteq> []
               then ''    dorgu.io/team: '' @ a_Team analysis @ ''\<newline>'' else [])
            @ ''spec:\<newline>''
            @ ''  name: '' @ a_Name analysis @ ''\<newline>''
            @ ''  version: '' @ [CHR 0x22] @ ''1'' @ [CHR 0x22] @ ''\<newline>''
            @ ''  type: '' @ appType @ ''\<newline>''
            @ ''  tier: '' @ tier @ ''\<newline>''
            @ ''  technical:\<newline>''
            @ (if a_Language analysis \<noteq> []
               then ''    language: '' @ a_Language analysis @ ''\<newline>'' else [])
            @ (if a_Framework analysis \<noteq> []
               then ''    framework: '' @ a_Framework analysis @ ''\<newline>'' else [])
            @ (if a_Description analysis \<noteq> []
               then ''    description: |\<newline>      '' @ indent_lines (a_Description analysis)
                    @ ''\<newline>''
               else [])
            @ writeResources analysis cfg
            @ writeScaling analysis
            @ writeHealth analysis
            @ writeDependencies analysis
            @ writeNetworking analysis cfg
            @ writeOwnership analysis
            @ writePolicies analysis cfg)))"

subsection \<open>The orchestrator\<close>

fun httpPorts_loop :: "Port list \<Rightarrow> bool" where
  "httpPorts_loop [] = False"
| "httpPorts_loop (p # ps) =
     (if (p_Port p = 80 \<or> p_Port p = 443 \<or> p_Port p = 8080 \<or> p_Port p = 3000
            \<or> p_Port p = 5000 \<or> p_Port p = 8000)
          \<or> p_Purpose p = ''HTTP'' \<or> p_Purpose p = ''HTTP API''
      then True else httpPorts_loop ps)"

definition hasHTTPPort :: "Port list \<Rightarrow> bool" where
  "hasHTTPPort ports = (if httpPorts_loop ports then True else length ports > 0)"

text \<open>
  \<open>Generate\<close>, block by block. Each block takes the files so far and returns them
  extended, or the error that makes \<open>Generate\<close> return \<open>nil, err\<close>. The warning that
  the last block prints when the structured persona fails is not part of the result and
  is left out.
\<close>

definition service_and_ingress ::
  "marshaller \<Rightarrow> AppAnalysis \<Rightarrow> Options \<Rightarrow> GeneratedFile list \<Rightarrow> error + GeneratedFile list" where
  "service_and_ingress toYAML analysis opts files =
     (if length (a_Ports analysis) > 0 then
        (case GenerateService toYAML analysis (o_Namespace opts) (o_Config opts) of
           Inl err \<Rightarrow> Inl err
         | Inr service \<Rightarrow>
             (let files = files @ [\<lparr>gf_Path = ''service.yaml'', gf_Content = service\<rparr>]
              in if hasHTTPPort (a_Ports analysis) then
                   (case GenerateIngress toYAML analysis (o_Namespace opts) (o_Config opts) of
                      Inl err \<Rightarrow> Inl err
                    | Inr ingress \<Rightarrow>
                        Inr (files @ [\<lparr>gf_Path = ''ingress.yaml'', gf_Content = ingress\<rparr>]))
                 else Inr files))
      else Inr files)"

definition hpa_block ::
  "marshaller \<Rightarrow> AppAnalysis \<Rightarrow> Options \<Rightarrow> GeneratedFile list \<Rightarrow> error + GeneratedFile list" where
  "hpa_block toYAML analysis opts files =
     (if a_Scaling analysis \<noteq> None then
        (case GenerateHPA toYAML analysis (o_Namespace opts) (o_Config opts) of
           Inl err \<Rightarrow> Inl err
         | Inr hpa \<Rightarrow> Inr (files @ [\<lparr>gf_Path = ''hpa.yaml'', gf_Content = hpa\<rparr>]))
      else Inr files)"

definition argocd_block ::
  "marshaller \<Rightarrow> AppAnalysis \<Rightarrow> Options \<Rightarrow> GeneratedFile list \<Rightarrow> error + GeneratedFile list" where
  "argocd_block toYAML analysis opts files =
     (if \<not> o_SkipArgoCD opts then
        (case GenerateArgoCD toYAML analysis (o_Namespace opts) (o_Config opts) of
           Inl err \<Rightarrow> Inl err
         | Inr argoApp \<Rightarrow>
             Inr (files @ [\<lparr>gf_Path = ''argocd/application.yaml'', gf_Content = argoApp\<rparr>]))
      else Inr files)"

definition ci_block ::
  "AppAnalysis \<Rightarrow> Options \<Rightarrow> GeneratedFile list \<Rightarrow> error + GeneratedFile list" where
  "ci_block analysis opts files =
     (if \<not> o_SkipCI opts then
        (case GenerateGitHubActions analysis (o_Config opts) of
           Inl err \<Rightarrow> Inl err
         | Inr workflow \<Rightarrow>
             Inr (files @ [\<lparr>gf_Path = ''../.github/workflows/deploy.yaml'',
                             gf_Content = workflow\<rparr>]))
      else Inr files)"

definition persona_block ::
  "persona_service \<Rightarrow> AppAnalysis \<Rightarrow> Options \<Rightarrow> GeneratedFile list \<Rightarrow> GeneratedFile list" where
  "persona_block llm analysis opts files =
     (if \<not> o_SkipPersona opts then
        (let persona = (case generatePersona llm analysis (o_Config opts) of
                          Inl err \<Rightarrow> generateBasicPersona analysis
                        | Inr text \<Rightarrow> text);
             files = files @ [\<lparr>gf_Path = ''../PERSONA.md'', gf_Content = persona\<rparr>]
         in case GeneratePersonaYAML analysis (o_Namespace opts) (o_Config opts) of
              Inl err \<Rightarrow> files
            | Inr personaYAML \<Rightarrow>
                files @ [\<lparr>gf_Path = ''persona.yaml'', gf_Content = personaYAML\<rparr>])
      else files)"

definition Generate ::
  "marshaller \<Rightarrow> persona_service \<Rightarrow> AppAnalysis \<Rightarrow> Options \<Rightarrow> error + GeneratedFile list" where
  "Generate toYAML llm analysis opts =
     (let resources = GetResourcesForProfile (o_Config opts) (a_ResourceProfile analysis)
      in case GenerateDeployment toYAML analysis (o_Namespace opts) resources (o_Config opts) of
           Inl err \<Rightarrow> Inl err
         | Inr deployment \<Rightarrow>
            (case service_and_ingress toYAML analysis opts
                    [\<lparr>gf_Path = ''deployment.yaml'', gf_Content = deployment\<rparr>] of
               Inl err \<Rightarrow> Inl err
             | Inr files \<Rightarrow>
                (case hpa_block toYAML analysis opts files of
                   Inl err \<Rightarrow> Inl err
                 | Inr files \<Rightarrow>
                    (case argocd_block toYAML analysis opts files of
                       Inl err \<Rightarrow> Inl err
                     | Inr files \<Rightarrow>
                        (case ci_block analysis opts files of
                           Inl err \<Rightarrow> Inl err
                         | Inr files \<Rightarrow> Inr (persona_block llm analysis opts files))))))"

text \<open>The paths of the files that a call returned; none when it returned an error.\<close>

definition paths_of :: "error + GeneratedFile list \<Rightarrow> string list" where
  "paths_of r = (case r of Inl err \<Rightarrow> [] | Inr files \<Rightarrow> map gf_Path files)"

text \<open>The containers of a workload document (the generator always writes exactly one).\<close>

definition containers :: "DeploymentManifest \<Rightarrow> Container list" where
  "containers d = pod_Containers (pt_Spec (ds_Template (dm_Spec d)))"

section \<open>Concrete inputs\<close>

text \<open>
  \<open>Default\<close> is the configuration that \<open>config.Default()\<close> returns (what
  \<open>applyDefaults\<close> puts into an empty \<open>Config\<close>); the zero records are Go's zero
  values; \<open>orders\<close> is the application of the specification's end-to-end scenario.
\<close>

definition Default :: Config where
  "Default =
     \<lparr>cfg_Resources_Defaults =
        \<lparr>rs_Requests = \<lparr>rv_CPU = ''100m'', rv_Memory = ''128Mi''\<rparr>,
         rs_Limits = \<lparr>rv_CPU = ''500m'', rv_Memory = ''512Mi''\<rparr>\<rparr>,
      cfg_Resources_Profiles =
        Mapping.of_alist
          [(''api'', \<lparr>rs_Requests = \<lparr>rv_CPU = ''100m'', rv_Memory = ''256Mi''\<rparr>,
                      rs_Limits = \<lparr>rv_CPU = ''1000m'', rv_Memory = ''1Gi''\<rparr>\<rparr>),
           (''worker'', \<lparr>rs_Requests = \<lparr>rv_CPU = ''500m'', rv_Memory = ''512Mi''\<rparr>,
                         rs_Limits = \<lparr>rv_CPU = ''2000m'', rv_Memory = ''2Gi''\<rparr>\<rparr>),
           (''web'', \<lparr>rs_Requests = \<lparr>rv_CPU = ''50m'', rv_Memory = ''128Mi''\<rparr>,
                      rs_Limits = \<lparr>rv_CPU = ''500m'', rv_Memory = ''512Mi''\<rparr>\<rparr>)],
      cfg_Labels_Custom = Mapping.empty,
      cfg_Annotations_Custom = Mapping.empty,
      cfg_Security_RunAsNonRoot = False,
      cfg_Security_ReadOnlyRootFilesystem = False,
      cfg_Security_AllowPrivilegeEscalation = False,
      cfg_Ingress_Class = ''nginx'',
      cfg_Ingress_DomainSuffix = ''.local'',
      cfg_Ingress_TLS_Enabled = False,
      cfg_Ingress_TLS_ClusterIssuer = [],
      cfg_ArgoCD_Project = ''default'',
      cfg_ArgoCD_Destination_Server = ''https://kubernetes.default.svc'',
      cfg_ArgoCD_Prune = False,
      cfg_ArgoCD_SelfHeal = False,
      cfg_CI_Registry = [],
      cfg_LLM_Provider = ''openai''\<rparr>"

definition zero_AppConfigContext :: AppConfigContext where
  "zero_AppConfigContext =
     \<lparr>ac_Name = [], ac_Description = [], ac_Team = [], ac_Owner = [], ac_Repository = [],
      ac_Type = [], ac_Tier = [], ac_Instructions = [], ac_Environment = [],
      ac_Resources = None, ac_Scaling = None, ac_Labels = Mapping.empty,
      ac_Annotations = Mapping.empty, ac_Ingress = None, ac_Health = None,
      ac_Dependencies = [], ac_Operations = None, ac_DeploymentPolicy = None\<rparr>"

definition zero_AppAnalysis :: AppAnalysis where
  "zero_AppAnalysis =
     \<lparr>a_Name = [], a_Type = [], a_Language = [], a_Framework = [], a_Description = [],
      a_Ports = [], a_HealthCheck = None, a_EnvVars = [], a_Dependencies = [],
      a_ResourceProfile = [], a_Scaling = None, a_AppConfig = None,
      a_Team = [], a_Owner = [], a_Repository = [], a_Environment = []\<rparr>"

definition default_Options :: Options where
  "default_Options =
     \<lparr>o_Namespace = ''default'', o_SkipArgoCD = False, o_SkipCI = False,
      o_SkipPersona = False, o_Config = Default\<rparr>"

definition orders :: AppAnalysis where
  "orders = zero_AppAnalysis
     \<lparr>a_Name := ''orders'', a_Type := ''api'',
      a_Ports := [\<lparr>p_Port = 8080, p_Protocol = ''TCP'', p_Purpose = ''HTTP API''\<rparr>],
      a_ResourceProfile := ''api'',
      a_Scaling := Some \<lparr>sc_MinReplicas = 2, sc_MaxReplicas = 10, sc_TargetCPU = 70,
                          sc_TargetMemory = 0, sc_Behavior = []\<rparr>\<rparr>"

definition orders_cpu_override :: AppAnalysis where
  "orders_cpu_override = orders
     \<lparr>a_AppConfig := Some (zero_AppConfigContext
        \<lparr>ac_Resources := Some \<lparr>ro_RequestsCPU = ''2000m'', ro_RequestsMemory = [],
                               ro_LimitsCPU = [], ro_LimitsMemory = []\<rparr>\<rparr>)\<rparr>"

text \<open>A platform arithmetic for the concrete runs below; none of them reaches it.\<close>

definition no_floats :: "string \<Rightarrow> int" where
  "no_floats s = 0"

text \<open>
  Two marshallers for the concrete runs: one that writes only the kind of the object,
  one that always fails. Two states of the language-model service, with different
  replies, and one in which the service is unreachable.
\<close>

definition kind_only :: marshaller where
  "kind_only m =
     Inr (''kind: ''
          @ (case m of
               DeploymentDoc d \<Rightarrow> dm_Kind d
             | ServiceDoc d \<Rightarrow> sm_Kind d
             | IngressDoc d \<Rightarrow> im_Kind d
             | HPADoc d \<Rightarrow> hm_Kind d
             | ArgoCDDoc d \<Rightarrow> aa_Kind d)
          @ ''\<newline>'')"

definition failing_marshaller :: marshaller where
  "failing_marshaller m = Inl (Error ''json: unsupported value'')"

definition reply_one :: persona_service where
  "reply_one provider analysis = Inr (''# '' @ a_Name analysis @ '' (first reply)'')"

definition reply_two :: persona_service where
  "reply_two provider analysis = Inr (''# '' @ a_Name analysis @ '' (second reply)'')"

definition unreachable :: persona_service where
  "unreachable provider analysis = Inl (Error ''OpenAI API key not set'')"

text \<open>
  Applications as \<open>applyAppConfig\<close> of the analyzer leaves them for a \<open>.dorgu.yaml\<close>
  that sets: only \<open>scaling.min_replicas: 5\<close>; only \<open>scaling.max_replicas: 1\<close>; only a
  liveness probe. And one whose analysis and app config name different repositories.
\<close>

definition orders_min_only :: AppAnalysis where
  "orders_min_only =
     (let scaling = \<lparr>sc_MinReplicas = 5, sc_MaxReplicas = 0, sc_TargetCPU = 0,
                      sc_TargetMemory = 0, sc_Behavior = []\<rparr>
      in orders\<lparr>a_Scaling := Some scaling,
                a_AppConfig := Some (zero_AppConfigContext\<lparr>ac_Scaling := Some scaling\<rparr>)\<rparr>)"

definition orders_max_only :: AppAnalysis where
  "orders_max_only =
     (let scaling = \<lparr>sc_MinReplicas = 0, sc_MaxReplicas = 1, sc_TargetCPU = 0,
                      sc_TargetMemory = 0, sc_Behavior = []\<rparr>
      in orders\<lparr>a_Scaling := Some scaling,
                a_AppConfig := Some (zero_AppConfigContext\<lparr>ac_Scaling := Some scaling\<rparr>)\<rparr>)"

definition orders_liveness_only :: AppAnalysis where
  "orders_liveness_only =
     orders\<lparr>a_HealthCheck := Some \<lparr>hc_Path = ''/live'', hc_Port = 8080,
                                     hc_InitialDelay = 0, hc_Period = 0\<rparr>,
            a_AppConfig := Some (zero_AppConfigContext
              \<lparr>ac_Health := Some \<lparr>hx_LivenessPath = ''/live'', hx_LivenessPort = 8080,
                                   hx_ReadinessPath = [], hx_ReadinessPort = 0,
                                   hx_InitialDelay = 0, hx_Period = 0,
                                   hx_StartupGracePeriod = []\<rparr>\<rparr>)\<rparr>"


definition orders_bare :: AppAnalysis where
  "orders_bare = orders\<lparr>a_Ports := [], a_Scaling := None\<rparr>"

text \<open>
  Two more states of the language-model service: one that fails with another error than
  \<open>unreachable\<close>, and one that gives the reply of \<open>reply_one\<close> for \<open>orders\<close>
  whatever it is asked.
\<close>

definition timed_out :: persona_service where
  "timed_out provider analysis = Inl (Error ''context deadline exceeded'')"

definition fixed_reply :: persona_service where
  "fixed_reply provider analysis = Inr ''# orders (first reply)''"



section \<open>Properties of the validator\<close>

lemmas scan_defs = HasSuffix_def TrimSuffix_def Sscanf_d_def scanInt_def isSpace_def
  isDigit_def decimal_def digit_val_def in_int64_def int64_def

lemma append_issue_Passed [simp]: "vr_Passed (append_issue r i) = vr_Passed r"
  by (simp add: append_issue_def)

lemma append_issue_Issues [simp]: "vr_Issues (append_issue r i) = vr_Issues r @ [i]"
  by (simp add: append_issue_def)

lemma mark_passed_Issues [simp]: "vr_Issues (mark_passed l r) = vr_Issues r"
  by (induction l) auto

lemma mark_passed_Passed:
  "vr_Passed (mark_passed l r) = (vr_Passed r \<and> (\<forall>i\<in>set l. vi_Severity i \<noteq> SeverityError))"
  by (induction l) auto

subsection \<open>No rule touches \<open>Passed\<close>\<close>

lemma Passed_validateImagePlaceholder [simp]:
  "vr_Passed (validateImagePlaceholder a opts r) = vr_Passed r"
  by (simp add: validateImagePlaceholder_def Let_def)

lemma Passed_validateResourceRequestsVsLimits [simp]:
  "vr_Passed (validateResourceRequestsVsLimits fm a opts r) = vr_Passed r"
  by (simp add: validateResourceRequestsVsLimits_def check_resource_bounds_def Let_def)

lemma Passed_validateServicePortMatch [simp]:
  "vr_Passed (validateServicePortMatch a r) = vr_Passed r"
  by (simp add: validateServicePortMatch_def split: option.splits)

lemma Passed_validateHPAMinMax [simp]:
  "vr_Passed (validateHPAMinMax r a) = vr_Passed r"
  by (simp add: validateHPAMinMax_def split: option.splits)

lemma Passed_validateIngressHost [simp]:
  "vr_Passed (validateIngressHost a opts r) = vr_Passed r"
  by (simp add: validateIngressHost_def)

lemma Passed_validateHealthProbes [simp]:
  "vr_Passed (validateHealthProbes a r) = vr_Passed r"
  by (simp add: validateHealthProbes_def Let_def)

lemma Passed_validateMissingRequiredFields [simp]:
  "vr_Passed (validateMissingRequiredFields a r) = vr_Passed r"
  by (simp add: validateMissingRequiredFields_def Let_def)

lemma run_rules_Passed: "vr_Passed (run_rules fm a opts)"
  by (simp add: run_rules_def)

lemma ValidateGenerated_Issues:
  "vr_Issues (ValidateGenerated fm a files opts) = vr_Issues (run_rules fm a opts)"
  by (simp add: ValidateGenerated_def Let_def)

lemma ValidateGenerated_Summary:
  "vr_Summary (ValidateGenerated fm a files opts) = summary_of (vr_Issues (run_rules fm a opts))"
  by (simp add: ValidateGenerated_def Let_def)

lemma ValidateGenerated_Passed:
  "vr_Passed (ValidateGenerated fm a files opts)
     = (\<forall>i\<in>set (vr_Issues (run_rules fm a opts)). vi_Severity i \<noteq> SeverityError)"
  by (simp add: ValidateGenerated_def Let_def mark_passed_Passed run_rules_Passed)

text \<open>
  Claim C2. For every analysis, list of generated files and options, the result of
  \<open>ValidateGenerated\<close> has \<open>Passed\<close> true if and only if no issue of its issue list
  has severity error.
\<close>

theorem passed_iff_no_error:
  "vr_Passed (ValidateGenerated fm analysis files opts)
     \<longleftrightarrow> (\<forall>i \<in> set (vr_Issues (ValidateGenerated fm analysis files opts)).
            vi_Severity i \<noteq> SeverityError)"
  by (simp only: ValidateGenerated_Passed ValidateGenerated_Issues)

lemma orders_severities:
  "map vi_Severity (vr_Issues (run_rules no_floats orders default_Options))
     = [SeverityWarning, SeverityInfo, SeverityWarning, SeverityInfo]"
  by (simp add: run_rules_def validateImagePlaceholder_def validateResourceRequestsVsLimits_def
      check_resource_bounds_def validateServicePortMatch_def validateHPAMinMax_def
      validateIngressHost_def validateHealthProbes_def validateMissingRequiredFields_def
      merged_resources_def apply_resource_overrides_def GetResourcesForProfile_def Mapping.lookup_of_alist
      resolve_scaling_def resolve_host_def app_health_def orders_def zero_AppAnalysis_def
      default_Options_def Default_def parseCPUMillis_def parseMemoryBytes_def scan_defs Let_def)

lemma nameless_severities:
  "map vi_Severity (vr_Issues (run_rules no_floats zero_AppAnalysis default_Options))
     = [SeverityWarning, SeverityInfo, SeverityWarning, SeverityError, SeverityInfo]"
  by (simp add: run_rules_def validateImagePlaceholder_def validateResourceRequestsVsLimits_def
      check_resource_bounds_def validateServicePortMatch_def validateHPAMinMax_def
      validateIngressHost_def validateHealthProbes_def validateMissingRequiredFields_def
      merged_resources_def apply_resource_overrides_def GetResourcesForProfile_def Mapping.lookup_of_alist
      resolve_scaling_def resolve_host_def app_health_def zero_AppAnalysis_def
      default_Options_def Default_def parseCPUMillis_def parseMemoryBytes_def scan_defs Let_def)

theorem passed_iff_no_error_witness:
  "vr_Passed (ValidateGenerated no_floats orders [] default_Options)
   \<and> map vi_Severity (vr_Issues (ValidateGenerated no_floats orders [] default_Options))
       = [SeverityWarning, SeverityInfo, SeverityWarning, SeverityInfo]
   \<and> \<not> vr_Passed (ValidateGenerated no_floats zero_AppAnalysis [] default_Options)
   \<and> map vi_Severity (vr_Issues (ValidateGenerated no_floats zero_AppAnalysis [] default_Options))
       = [SeverityWarning, SeverityInfo, SeverityWarning, SeverityError, SeverityInfo]"
proof -
  have sev: "(\<forall>i \<in> set issues. vi_Severity i \<noteq> SeverityError)
      \<longleftrightarrow> SeverityError \<notin> set (map vi_Severity issues)" for issues :: "ValidationIssue list"
    by force
  show ?thesis
    using passed_iff_no_error [of no_floats orders "[]" default_Options]
      passed_iff_no_error [of no_floats zero_AppAnalysis "[]" default_Options]
    unfolding sev by (simp add: ValidateGenerated_Issues orders_severities nameless_severities)
qed

subsection \<open>Every rule only appends\<close>

lemma latest_note_validateImagePlaceholder:
  "\<lparr>vi_Severity = SeverityInfo, vi_Category = ''image'', vi_File = ''deployment.yaml'',
    vi_Message = ''Image uses '' @ [CHR 0x27] @ '':latest'' @ [CHR 0x27] @ '' tag'',
    vi_Suggestion = ''Use specific image tags in production for reproducible deployments''\<rparr>
   \<in> set (vr_Issues (validateImagePlaceholder a opts r))"
  by (simp add: validateImagePlaceholder_def Let_def)

lemma keep_validateResourceRequestsVsLimits:
  "i \<in> set (vr_Issues r) \<Longrightarrow> i \<in> set (vr_Issues (validateResourceRequestsVsLimits fm a opts r))"
  by (simp add: validateResourceRequestsVsLimits_def check_resource_bounds_def Let_def)

lemma keep_validateServicePortMatch:
  "i \<in> set (vr_Issues r) \<Longrightarrow> i \<in> set (vr_Issues (validateServicePortMatch a r))"
  by (simp add: validateServicePortMatch_def split: option.splits)

lemma keep_validateHPAMinMax:
  "i \<in> set (vr_Issues r) \<Longrightarrow> i \<in> set (vr_Issues (validateHPAMinMax r a))"
  by (simp add: validateHPAMinMax_def split: option.splits)

lemma keep_validateIngressHost:
  "i \<in> set (vr_Issues r) \<Longrightarrow> i \<in> set (vr_Issues (validateIngressHost a opts r))"
  by (simp add: validateIngressHost_def)

lemma keep_validateHealthProbes:
  "i \<in> set (vr_Issues r) \<Longrightarrow> i \<in> set (vr_Issues (validateHealthProbes a r))"
  by (simp add: validateHealthProbes_def Let_def)

lemma keep_validateMissingRequiredFields:
  "i \<in> set (vr_Issues r) \<Longrightarrow> i \<in> set (vr_Issues (validateMissingRequiredFields a r))"
  by (simp add: validateMissingRequiredFields_def Let_def)

lemma run_rules_latest_note:
  "\<lparr>vi_Severity = SeverityInfo, vi_Category = ''image'', vi_File = ''deployment.yaml'',
    vi_Message = ''Image uses '' @ [CHR 0x27] @ '':latest'' @ [CHR 0x27] @ '' tag'',
    vi_Suggestion = ''Use specific image tags in production for reproducible deployments''\<rparr>
   \<in> set (vr_Issues (run_rules fm a opts))"
  unfolding run_rules_def Let_def
  by (intro keep_validateMissingRequiredFields keep_validateHealthProbes
      keep_validateIngressHost keep_validateHPAMinMax keep_validateServicePortMatch
      keep_validateResourceRequestsVsLimits latest_note_validateImagePlaceholder)

lemma summary_of_nonempty:
  "issues \<noteq> [] \<Longrightarrow> summary_of issues \<noteq> ''All validation checks passed''"
  by (simp add: summary_of_def Let_def split: prod.splits)

text \<open>
  Claim C9. For every analysis, list of generated files and options, the result of
  \<open>ValidateGenerated\<close> holds at least one issue: the info note on the \<open>:latest\<close> image
  tag is always among its issues. So its summary is never the text for no issue at all,
  "All validation checks passed".
\<close>

theorem always_one_issue:
  "\<lparr>vi_Severity = SeverityInfo, vi_Category = ''image'', vi_File = ''deployment.yaml'',
    vi_Message = ''Image uses '' @ [CHR 0x27] @ '':latest'' @ [CHR 0x27] @ '' tag'',
    vi_Suggestion = ''Use specific image tags in production for reproducible deployments''\<rparr>
     \<in> set (vr_Issues (ValidateGenerated fm analysis files opts))
   \<and> vr_Issues (ValidateGenerated fm analysis files opts) \<noteq> []
   \<and> vr_Summary (ValidateGenerated fm analysis files opts) \<noteq> ''All validation checks passed''"
proof -
  let ?issues = "vr_Issues (run_rules fm analysis opts)"
  have latest: "\<lparr>vi_Severity = SeverityInfo, vi_Category = ''image'', vi_File = ''deployment.yaml'',
    vi_Message = ''Image uses '' @ [CHR 0x27] @ '':latest'' @ [CHR 0x27] @ '' tag'',
    vi_Suggestion = ''Use specific image tags in production for reproducible deployments''\<rparr>
     \<in> set ?issues"
    by (rule run_rules_latest_note)
  from latest have ne: "?issues \<noteq> []"
    by auto
  from latest ne summary_of_nonempty [OF ne] show ?thesis
    by (simp only: ValidateGenerated_Issues ValidateGenerated_Summary simp_thms)
qed

theorem always_one_issue_witness:
  "vr_Issues (ValidateGenerated no_floats orders [] default_Options) \<noteq> []
   \<and> vr_Summary (ValidateGenerated no_floats orders [] default_Options)
       \<noteq> ''All validation checks passed''"
  using always_one_issue [of no_floats orders "[]" default_Options] by blast

text \<open>
  Claim C10. The result of \<open>ValidateGenerated\<close> does not depend on the list of generated
  files: for one analysis and one set of options, any two lists of files give the same
  \<open>ValidationResult\<close>.
\<close>

theorem validation_ignores_files:
  "ValidateGenerated fm analysis files1 opts = ValidateGenerated fm analysis files2 opts"
  by (simp add: ValidateGenerated_def)

theorem validation_ignores_files_witness:
  "ValidateGenerated no_floats orders [] default_Options
     = ValidateGenerated no_floats orders
         [\<lparr>gf_Path = ''hpa.yaml'', gf_Content = ''minReplicas: 50''\<rparr>] default_Options"
  using validation_ignores_files
    [of no_floats orders "[]" default_Options
        "[\<lparr>gf_Path = ''hpa.yaml'', gf_Content = ''minReplicas: 50''\<rparr>]"]
  by simp

subsection \<open>Quantities\<close>

lemma parse_2000m: "parseCPUMillis fm ''2000m'' = 2000"
  by (simp add: parseCPUMillis_def scan_defs)

lemma parse_1000m: "parseCPUMillis fm ''1000m'' = 1000"
  by (simp add: parseCPUMillis_def scan_defs)

lemma parse_2: "parseCPUMillis fm ''2'' = 2000"
  by (simp add: parseCPUMillis_def HasSuffix_def cores_millis_def isDigit_def decimal_def
      digit_val_def)

lemma parse_1Ki: "parseMemoryBytes ''1Ki'' = 1024"
  by (simp add: parseMemoryBytes_def scan_defs)

lemma parse_1Mi: "parseMemoryBytes ''1Mi'' = 1024 ^ 2"
  by (simp add: parseMemoryBytes_def scan_defs)

lemma parse_1Gi: "parseMemoryBytes ''1Gi'' = 1073741824"
  by (simp add: parseMemoryBytes_def scan_defs)

lemma parse_1Ti: "parseMemoryBytes ''1Ti'' = 1024 ^ 4"
  by (simp add: parseMemoryBytes_def scan_defs)

lemma parse_512: "parseMemoryBytes ''512'' = 512"
  by (simp add: parseMemoryBytes_def scan_defs)

lemma parse_256Mi: "parseMemoryBytes ''256Mi'' = 268435456"
  by (simp add: parseMemoryBytes_def scan_defs)

text \<open>No string ends in two of the four suffixes that \<open>parseMemoryBytes\<close> ranges over.\<close>

lemma suffixes_exclusive:
  assumes "HasSuffix mem s1" "HasSuffix mem s2"
    and "s1 \<in> {''Ki'', ''Mi'', ''Gi'', ''Ti''}" "s2 \<in> {''Ki'', ''Mi'', ''Gi'', ''Ti''}"
  shows "s1 = s2"
proof -
  from assms(3,4) have "length s1 = 2" "length s2 = 2"
    by auto
  with assms(1,2) have "s1 = drop (length mem - 2) mem" "s2 = drop (length mem - 2) mem"
    by (simp_all add: HasSuffix_def)
  then show ?thesis
    by simp
qed

text \<open>Decimal digits with a suffix, in general.\<close>

lemma decimal_foldl_nonneg:
  "list_all isDigit ds \<Longrightarrow> 0 \<le> acc \<Longrightarrow> 0 \<le> foldl (\<lambda>acc c. 10 * acc + digit_val c) acc ds"
proof (induction ds arbitrary: acc)
  case Nil
  then show ?case by simp
next
  case (Cons c cs)
  from Cons.prems have "0 \<le> digit_val c"
    by (simp add: isDigit_def digit_val_def)
  with Cons.prems have "0 \<le> 10 * acc + digit_val c"
    by simp
  with Cons show ?case
    by simp
qed

lemma decimal_nonneg: "list_all isDigit ds \<Longrightarrow> 0 \<le> decimal ds"
  by (simp add: decimal_def decimal_foldl_nonneg)

lemma digit_plain:
  assumes "isDigit c"
  shows "\<not> isSpace c" "c \<noteq> CHR 0x0A" "c \<noteq> CHR ''-''" "c \<noteq> CHR ''+''"
    "c \<noteq> CHR ''m''" "c \<noteq> CHR ''i''"
  using assms by (auto simp: isDigit_def isSpace_def)

lemma scanInt_unsigned:
  "c \<noteq> CHR ''-'' \<Longrightarrow> c \<noteq> CHR ''+'' \<Longrightarrow>
   scanInt (c # cs) =
     (if takeWhile isDigit (c # cs) = [] \<or> \<not> in_int64 (decimal (takeWhile isDigit (c # cs)))
      then 0 else decimal (takeWhile isDigit (c # cs)))"
  by (simp add: scanInt_def Let_def)

lemma Sscanf_d_digits:
  assumes "ds \<noteq> []" "list_all isDigit ds" "decimal ds < 2 ^ 63"
  shows "Sscanf_d ds = decimal ds"
proof -
  from assms(1) obtain c cs where ds: "ds = c # cs"
    by (cases ds) auto
  with assms(2) have c: "isDigit c"
    by simp
  have tok: "takeWhile isDigit (c # cs) = c # cs"
    using assms(2) unfolding ds by (simp only: takeWhile_eq_all_conv list_all_iff)
  have range: "in_int64 (decimal (c # cs))"
    using decimal_nonneg [OF assms(2)] assms(3) by (simp add: in_int64_def ds)
  have "SkipSpace (c # cs) = Some (c # cs)"
    using digit_plain [OF c] by simp
  moreover have "scanInt (c # cs) = decimal (c # cs)"
    using scanInt_unsigned [OF digit_plain(3) [OF c] digit_plain(4) [OF c], of cs] range
    by (simp only: tok) simp
  ultimately show ?thesis
    by (simp add: Sscanf_d_def ds)
qed

lemma HasSuffix_append [simp]: "HasSuffix (ds @ suffix) suffix"
  by (simp add: HasSuffix_def)

lemma TrimSuffix_append [simp]: "TrimSuffix (ds @ suffix) suffix = ds"
  by (simp add: TrimSuffix_def)

lemma HasSuffix_append_same_length:
  "length s1 = length s2 \<Longrightarrow> HasSuffix (ds @ s1) s2 \<longleftrightarrow> s1 = s2"
  by (auto simp: HasSuffix_def)

lemma digits_no_suffix:
  assumes "list_all isDigit ds" "suffix \<noteq> []" "\<not> isDigit (last suffix)"
  shows "\<not> HasSuffix ds suffix"
proof
  assume "HasSuffix ds suffix"
  then have d: "drop (length ds - length suffix) ds = suffix"
    by (simp add: HasSuffix_def)
  with assms(2) have "last suffix \<in> set ds"
    by (metis in_set_dropD last_in_set)
  with assms(1,3) show False
    by (simp add: list_all_iff)
qed

lemma int64_id: "0 \<le> x \<Longrightarrow> x < 2 ^ 63 \<Longrightarrow> int64 x = x"
  by (simp add: int64_def)

lemma quantities_general:
  assumes "ds \<noteq> []" "list_all isDigit ds"
  shows "decimal ds < 2 ^ 63 \<longrightarrow> parseCPUMillis fm (ds @ ''m'') = decimal ds"
    and "decimal ds * 1000 \<le> 2 ^ 53 \<longrightarrow> parseCPUMillis fm ds = decimal ds * 1000"
    and "decimal ds * 1024 < 2 ^ 63 \<longrightarrow> parseMemoryBytes (ds @ ''Ki'') = decimal ds * 1024"
    and "decimal ds * 1024 ^ 2 < 2 ^ 63
           \<longrightarrow> parseMemoryBytes (ds @ ''Mi'') = decimal ds * 1024 ^ 2"
    and "decimal ds * 1024 ^ 3 < 2 ^ 63
           \<longrightarrow> parseMemoryBytes (ds @ ''Gi'') = decimal ds * 1024 ^ 3"
    and "decimal ds * 1024 ^ 4 < 2 ^ 63
           \<longrightarrow> parseMemoryBytes (ds @ ''Ti'') = decimal ds * 1024 ^ 4"
    and "decimal ds < 2 ^ 63 \<longrightarrow> parseMemoryBytes ds = decimal ds"
proof -
  note nn = decimal_nonneg [OF assms(2)]
  have nodigit: "\<not> isDigit (CHR ''m'')" "\<not> isDigit (CHR ''i'')"
    by (simp_all add: isDigit_def)
  show "decimal ds < 2 ^ 63 \<longrightarrow> parseCPUMillis fm (ds @ ''m'') = decimal ds"
    using assms by (simp add: parseCPUMillis_def Sscanf_d_digits)
  show "decimal ds * 1000 \<le> 2 ^ 53 \<longrightarrow> parseCPUMillis fm ds = decimal ds * 1000"
    using assms digits_no_suffix [OF assms(2), of "''m''"] nodigit
    by (simp add: parseCPUMillis_def cores_millis_def)
  have small: "decimal ds * k < 2 ^ 63 \<Longrightarrow> 1 \<le> k \<Longrightarrow> decimal ds < 2 ^ 63" for k
  proof -
    assume a: "decimal ds * k < 2 ^ 63" "1 \<le> k"
    from nn a(2) have "decimal ds * 1 \<le> decimal ds * k"
      by (intro mult_left_mono) auto
    with a(1) show ?thesis
      by simp
  qed
  show "decimal ds * 1024 < 2 ^ 63 \<longrightarrow> parseMemoryBytes (ds @ ''Ki'') = decimal ds * 1024"
    using assms nn small [of 1024]
    by (simp add: parseMemoryBytes_def Sscanf_d_digits int64_id)
  show "decimal ds * 1024 ^ 2 < 2 ^ 63
          \<longrightarrow> parseMemoryBytes (ds @ ''Mi'') = decimal ds * 1024 ^ 2"
    using assms nn small [of "1024 ^ 2"]
    by (simp add: parseMemoryBytes_def Sscanf_d_digits int64_id HasSuffix_append_same_length)
  show "decimal ds * 1024 ^ 3 < 2 ^ 63
          \<longrightarrow> parseMemoryBytes (ds @ ''Gi'') = decimal ds * 1024 ^ 3"
    using assms nn small [of "1024 ^ 3"]
    by (simp add: parseMemoryBytes_def Sscanf_d_digits int64_id HasSuffix_append_same_length)
  show "decimal ds * 1024 ^ 4 < 2 ^ 63
          \<longrightarrow> parseMemoryBytes (ds @ ''Ti'') = decimal ds * 1024 ^ 4"
    using assms nn small [of "1024 ^ 4"]
    by (simp add: parseMemoryBytes_def Sscanf_d_digits int64_id HasSuffix_append_same_length)
  show "decimal ds < 2 ^ 63 \<longrightarrow> parseMemoryBytes ds = decimal ds"
    using assms digits_no_suffix [OF assms(2), of "''Ki''"]
      digits_no_suffix [OF assms(2), of "''Mi''"] digits_no_suffix [OF assms(2), of "''Gi''"]
      digits_no_suffix [OF assms(2), of "''Ti''"] nodigit
    by (simp add: parseMemoryBytes_def Sscanf_d_digits)
qed

lemma check_resource_bounds_cpu:
  assumes "rv_CPU (rs_Requests rs) = ''2000m''" "rv_CPU (rs_Limits rs) = ''1000m''"
    and "parseMemoryBytes (rv_Memory (rs_Requests rs)) \<le> parseMemoryBytes (rv_Memory (rs_Limits rs))"
  shows "\<exists>i. vr_Issues (check_resource_bounds fm rs r) = vr_Issues r @ [i]
           \<and> vi_Severity i = SeverityError \<and> vi_Category i = ''resources''"
  using assms by (simp add: check_resource_bounds_def Let_def parse_2000m parse_1000m)

text \<open>
  Claim C4. The quantity parsers give 2000 milli-units for the CPU quantity "2000m" and
  for "2", and 1073741824 bytes for the memory quantity "1Gi". In general, for a number
  written in decimal digits: a CPU quantity with the suffix m is that number of
  milli-units and one without suffix is 1000 times the number; a memory quantity with the
  suffix Ki, Mi, Gi or Ti is the number times 1024, 1024^2, 1024^3 or 1024^4, and
  one without suffix is the number of bytes (as long as the results fit the 64-bit
  integer and, for whole cores, the exact range of float64). When the merged resource spec
  requests the CPU "2000m" under the limit "1000m", and its memory request does not
  exceed its memory limit, the resource bounds check appends exactly one issue: an error
  of category "resources".
\<close>

theorem quantities_and_cpu_bound:
  "parseCPUMillis fm ''2000m'' = 2000 \<and> parseCPUMillis fm ''2'' = 2000
   \<and> parseMemoryBytes ''1Gi'' = 1073741824
   \<and> (ds \<noteq> [] \<and> list_all isDigit ds \<longrightarrow>
        (decimal ds < 2 ^ 63 \<longrightarrow> parseCPUMillis fm (ds @ ''m'') = decimal ds)
      \<and> (decimal ds * 1000 \<le> 2 ^ 53 \<longrightarrow> parseCPUMillis fm ds = decimal ds * 1000)
      \<and> (decimal ds * 1024 < 2 ^ 63 \<longrightarrow> parseMemoryBytes (ds @ ''Ki'') = decimal ds * 1024)
      \<and> (decimal ds * 1024 ^ 2 < 2 ^ 63
            \<longrightarrow> parseMemoryBytes (ds @ ''Mi'') = decimal ds * 1024 ^ 2)
      \<and> (decimal ds * 1024 ^ 3 < 2 ^ 63
            \<longrightarrow> parseMemoryBytes (ds @ ''Gi'') = decimal ds * 1024 ^ 3)
      \<and> (decimal ds * 1024 ^ 4 < 2 ^ 63
            \<longrightarrow> parseMemoryBytes (ds @ ''Ti'') = decimal ds * 1024 ^ 4)
      \<and> (decimal ds < 2 ^ 63 \<longrightarrow> parseMemoryBytes ds = decimal ds))
   \<and> (rv_CPU (rs_Requests (merged_resources analysis (o_Config opts))) = ''2000m''
      \<and> rv_CPU (rs_Limits (merged_resources analysis (o_Config opts))) = ''1000m''
      \<and> parseMemoryBytes (rv_Memory (rs_Requests (merged_resources analysis (o_Config opts))))
          \<le> parseMemoryBytes (rv_Memory (rs_Limits (merged_resources analysis (o_Config opts))))
      \<longrightarrow> (\<exists>i. vr_Issues (validateResourceRequestsVsLimits fm analysis opts result)
                 = vr_Issues result @ [i]
             \<and> vi_Severity i = SeverityError \<and> vi_Category i = ''resources''))"
proof -
  have general: "ds \<noteq> [] \<and> list_all isDigit ds \<longrightarrow>
        (decimal ds < 2 ^ 63 \<longrightarrow> parseCPUMillis fm (ds @ ''m'') = decimal ds)
      \<and> (decimal ds * 1000 \<le> 2 ^ 53 \<longrightarrow> parseCPUMillis fm ds = decimal ds * 1000)
      \<and> (decimal ds * 1024 < 2 ^ 63 \<longrightarrow> parseMemoryBytes (ds @ ''Ki'') = decimal ds * 1024)
      \<and> (decimal ds * 1024 ^ 2 < 2 ^ 63
            \<longrightarrow> parseMemoryBytes (ds @ ''Mi'') = decimal ds * 1024 ^ 2)
      \<and> (decimal ds * 1024 ^ 3 < 2 ^ 63
            \<longrightarrow> parseMemoryBytes (ds @ ''Gi'') = decimal ds * 1024 ^ 3)
      \<and> (decimal ds * 1024 ^ 4 < 2 ^ 63
            \<longrightarrow> parseMemoryBytes (ds @ ''Ti'') = decimal ds * 1024 ^ 4)
      \<and> (decimal ds < 2 ^ 63 \<longrightarrow> parseMemoryBytes ds = decimal ds)"
  proof (intro impI)
    assume "ds \<noteq> [] \<and> list_all isDigit ds"
    then have ds: "ds \<noteq> []" "list_all isDigit ds"
      by simp_all
    from quantities_general [OF ds] show
       "(decimal ds < 2 ^ 63 \<longrightarrow> parseCPUMillis fm (ds @ ''m'') = decimal ds)
      \<and> (decimal ds * 1000 \<le> 2 ^ 53 \<longrightarrow> parseCPUMillis fm ds = decimal ds * 1000)
      \<and> (decimal ds * 1024 < 2 ^ 63 \<longrightarrow> parseMemoryBytes (ds @ ''Ki'') = decimal ds * 1024)
      \<and> (decimal ds * 1024 ^ 2 < 2 ^ 63
            \<longrightarrow> parseMemoryBytes (ds @ ''Mi'') = decimal ds * 1024 ^ 2)
      \<and> (decimal ds * 1024 ^ 3 < 2 ^ 63
            \<longrightarrow> parseMemoryBytes (ds @ ''Gi'') = decimal ds * 1024 ^ 3)
      \<and> (decimal ds * 1024 ^ 4 < 2 ^ 63
            \<longrightarrow> parseMemoryBytes (ds @ ''Ti'') = decimal ds * 1024 ^ 4)
      \<and> (decimal ds < 2 ^ 63 \<longrightarrow> parseMemoryBytes ds = decimal ds)"
      by blast
  qed
  have bound: "rv_CPU (rs_Requests (merged_resources analysis (o_Config opts))) = ''2000m''
      \<and> rv_CPU (rs_Limits (merged_resources analysis (o_Config opts))) = ''1000m''
      \<and> parseMemoryBytes (rv_Memory (rs_Requests (merged_resources analysis (o_Config opts))))
          \<le> parseMemoryBytes (rv_Memory (rs_Limits (merged_resources analysis (o_Config opts))))
      \<longrightarrow> (\<exists>i. vr_Issues (validateResourceRequestsVsLimits fm analysis opts result)
                 = vr_Issues result @ [i]
             \<and> vi_Severity i = SeverityError \<and> vi_Category i = ''resources'')"
    using check_resource_bounds_cpu [of "merged_resources analysis (o_Config opts)" fm result]
    by (simp only: validateResourceRequestsVsLimits_def) blast
  from general bound show ?thesis
    by (simp only: parse_2000m parse_2 parse_1Gi simp_thms)
qed

lemma merged_orders_cpu_override:
  "merged_resources orders_cpu_override (o_Config default_Options) =
     \<lparr>rs_Requests = \<lparr>rv_CPU = ''2000m'', rv_Memory = ''256Mi''\<rparr>,
      rs_Limits = \<lparr>rv_CPU = ''1000m'', rv_Memory = ''1Gi''\<rparr>\<rparr>"
  by (simp add: merged_resources_def orders_cpu_override_def orders_def zero_AppAnalysis_def
      zero_AppConfigContext_def default_Options_def Default_def apply_resource_overrides_def
      GetResourcesForProfile_def Mapping.lookup_of_alist)

theorem quantities_and_cpu_bound_witness:
  "parseCPUMillis no_floats ''256m'' = 256 \<and> parseCPUMillis no_floats ''256'' = 256000
   \<and> parseMemoryBytes ''256Ki'' = 262144 \<and> parseMemoryBytes ''256Mi'' = 268435456
   \<and> parseMemoryBytes ''256Gi'' = 274877906944 \<and> parseMemoryBytes ''256Ti'' = 281474976710656
   \<and> parseMemoryBytes ''256'' = 256
   \<and> rv_CPU (rs_Requests (merged_resources orders_cpu_override (o_Config default_Options))) = ''2000m''
   \<and> rv_CPU (rs_Limits (merged_resources orders_cpu_override (o_Config default_Options))) = ''1000m''
   \<and> parseMemoryBytes (rv_Memory (rs_Requests (merged_resources orders_cpu_override (o_Config default_Options))))
       \<le> parseMemoryBytes (rv_Memory (rs_Limits (merged_resources orders_cpu_override (o_Config default_Options))))
   \<and> (\<exists>i. vr_Issues (validateResourceRequestsVsLimits no_floats orders_cpu_override default_Options
                 \<lparr>vr_Issues = [], vr_Passed = True, vr_Summary = []\<rparr>) = [i]
           \<and> vi_Severity i = SeverityError \<and> vi_Category i = ''resources'')"
proof -
  have digits: "decimal ''256'' = 256"
    by (simp add: decimal_def digit_val_def)
  show ?thesis
    using quantities_and_cpu_bound [of no_floats "''256''" orders_cpu_override default_Options
        "\<lparr>vr_Issues = [], vr_Passed = True, vr_Summary = []\<rparr>"]
    unfolding digits
    by (simp add: isDigit_def merged_orders_cpu_override parse_256Mi parse_1Gi)
qed

section \<open>Properties of the generators\<close>

subsection \<open>Which files \<open>Generate\<close> returns\<close>

lemma hasHTTPPort_nonempty: "ports \<noteq> [] \<Longrightarrow> hasHTTPPort ports"
  by (simp add: hasHTTPPort_def)

lemma service_and_ingress_paths:
  "service_and_ingress m a opts files = Inr fs \<Longrightarrow>
   map gf_Path fs = map gf_Path files
      @ (if a_Ports a = [] then [] else [''service.yaml'', ''ingress.yaml''])"
  by (auto simp: service_and_ingress_def hasHTTPPort_nonempty Let_def
      split: sum.splits if_splits)

lemma hpa_block_paths:
  "hpa_block m a opts files = Inr fs \<Longrightarrow>
   map gf_Path fs = map gf_Path files @ (if a_Scaling a = None then [] else [''hpa.yaml''])"
  by (auto simp: hpa_block_def split: sum.splits if_splits)

lemma argocd_block_paths:
  "argocd_block m a opts files = Inr fs \<Longrightarrow>
   map gf_Path fs = map gf_Path files
      @ (if o_SkipArgoCD opts then [] else [''argocd/application.yaml''])"
  by (auto simp: argocd_block_def split: sum.splits if_splits)

lemma ci_block_paths:
  "ci_block a opts files = Inr fs \<Longrightarrow>
   map gf_Path fs = map gf_Path files
      @ (if o_SkipCI opts then [] else [''../.github/workflows/deploy.yaml''])"
  by (auto simp: ci_block_def split: sum.splits if_splits)

lemma persona_block_paths:
  "map gf_Path (persona_block llm a opts files) = map gf_Path files
      @ (if o_SkipPersona opts then []
         else [''../PERSONA.md''] @ (if a_Name a = [] then [] else [''persona.yaml'']))"
  by (auto simp: persona_block_def GeneratePersonaYAML_def Let_def split: sum.splits if_splits)

text \<open>The paths of a successful run, in order.\<close>

lemma Generate_paths:
  assumes "Generate m llm a opts = Inr fs"
  shows "map gf_Path fs =
      [''deployment.yaml'']
      @ (if a_Ports a = [] then [] else [''service.yaml'', ''ingress.yaml''])
      @ (if a_Scaling a = None then [] else [''hpa.yaml''])
      @ (if o_SkipArgoCD opts then [] else [''argocd/application.yaml''])
      @ (if o_SkipCI opts then [] else [''../.github/workflows/deploy.yaml''])
      @ (if o_SkipPersona opts then []
         else [''../PERSONA.md''] @ (if a_Name a = [] then [] else [''persona.yaml'']))"
proof -
  from assms obtain d f1 f2 f3 f4 where
    s1: "service_and_ingress m a opts [\<lparr>gf_Path = ''deployment.yaml'', gf_Content = d\<rparr>] = Inr f1"
    and s2: "hpa_block m a opts f1 = Inr f2"
    and s3: "argocd_block m a opts f2 = Inr f3"
    and s4: "ci_block a opts f3 = Inr f4"
    and s5: "fs = persona_block llm a opts f4"
    by (auto simp: Generate_def Let_def split: sum.splits)
  show ?thesis
    unfolding s5 persona_block_paths ci_block_paths [OF s4] argocd_block_paths [OF s3]
      hpa_block_paths [OF s2] service_and_ingress_paths [OF s1]
    by simp
qed

text \<open>
  Claim C5. For every analysis with an empty list of ports, \<open>Generate\<close> returns neither
  \<open>service.yaml\<close> nor \<open>ingress.yaml\<close>, whatever the other fields, the options, the
  marshaller and the language-model service are; and for every analysis without scaling
  it returns no \<open>hpa.yaml\<close>.
\<close>

theorem no_ports_no_scaling:
  "(a_Ports analysis = [] \<longrightarrow>
      ''service.yaml'' \<notin> set (paths_of (Generate toYAML llm analysis opts))
      \<and> ''ingress.yaml'' \<notin> set (paths_of (Generate toYAML llm analysis opts)))
   \<and> (a_Scaling analysis = None \<longrightarrow>
      ''hpa.yaml'' \<notin> set (paths_of (Generate toYAML llm analysis opts)))"
proof (cases "Generate toYAML llm analysis opts")
  case (Inl e)
  then show ?thesis
    by (simp add: paths_of_def)
next
  case (Inr fs)
  from Generate_paths [OF Inr] show ?thesis
    by (simp add: paths_of_def Inr)
qed

lemma Generate_orders_bare:
  "paths_of (Generate kind_only unreachable orders_bare default_Options) =
     [''deployment.yaml'', ''argocd/application.yaml'', ''../.github/workflows/deploy.yaml'',
      ''../PERSONA.md'', ''persona.yaml'']"
  by (simp add: paths_of_def Generate_def GenerateDeployment_def kind_only_def
      service_and_ingress_def hpa_block_def argocd_block_def GenerateArgoCD_def ci_block_def
      GenerateGitHubActions_def persona_block_def GeneratePersonaYAML_def orders_bare_def
      orders_def zero_AppAnalysis_def default_Options_def Let_def)

theorem no_ports_no_scaling_witness:
  "a_Ports orders_bare = [] \<and> a_Scaling orders_bare = None
   \<and> ''service.yaml'' \<notin> set (paths_of (Generate kind_only unreachable orders_bare default_Options))
   \<and> ''ingress.yaml'' \<notin> set (paths_of (Generate kind_only unreachable orders_bare default_Options))
   \<and> ''hpa.yaml'' \<notin> set (paths_of (Generate kind_only unreachable orders_bare default_Options))
   \<and> paths_of (Generate kind_only unreachable orders_bare default_Options) =
     [''deployment.yaml'', ''argocd/application.yaml'', ''../.github/workflows/deploy.yaml'',
      ''../PERSONA.md'', ''persona.yaml'']"
  using no_ports_no_scaling [of orders_bare kind_only unreachable default_Options]
  by (simp add: Generate_orders_bare) (simp add: orders_bare_def)

subsection \<open>What \<open>Generate\<close> takes from the language-model service\<close>

text \<open>Only the last block of \<open>Generate\<close> sees the service.\<close>

lemma Generate_before_persona:
  "\<exists>r. \<forall>llm. Generate m llm a opts =
      (case r of Inl err \<Rightarrow> Inl err | Inr files \<Rightarrow> Inr (persona_block llm a opts files))"
proof -
  let ?r = "(let resources = GetResourcesForProfile (o_Config opts) (a_ResourceProfile a)
      in case GenerateDeployment m a (o_Namespace opts) resources (o_Config opts) of
           Inl err \<Rightarrow> Inl err
         | Inr deployment \<Rightarrow>
            (case service_and_ingress m a opts
                    [\<lparr>gf_Path = ''deployment.yaml'', gf_Content = deployment\<rparr>] of
               Inl err \<Rightarrow> Inl err
             | Inr files \<Rightarrow>
                (case hpa_block m a opts files of
                   Inl err \<Rightarrow> Inl err
                 | Inr files \<Rightarrow>
                    (case argocd_block m a opts files of
                       Inl err \<Rightarrow> Inl err
                     | Inr files \<Rightarrow> ci_block a opts files))))"
  have "\<forall>llm. Generate m llm a opts =
      (case ?r of Inl err \<Rightarrow> Inl err | Inr files \<Rightarrow> Inr (persona_block llm a opts files))"
    by (simp add: Generate_def Let_def split: sum.splits)
  then show ?thesis
    by blast
qed

lemma persona_block_skip: "o_SkipPersona opts \<Longrightarrow> persona_block llm a opts files = files"
  by (simp add: persona_block_def)

text \<open>
  The free-text persona is the reply of the service, or the basic persona when the
  service fails, whatever the error is.
\<close>

lemma persona_block_same_outcome:
  assumes "llm1 (cfg_LLM_Provider (o_Config opts)) a = llm2 (cfg_LLM_Provider (o_Config opts)) a
     \<or> (isl (llm1 (cfg_LLM_Provider (o_Config opts)) a)
         \<and> isl (llm2 (cfg_LLM_Provider (o_Config opts)) a))"
  shows "persona_block llm1 a opts files = persona_block llm2 a opts files"
  using assms
  by (auto simp: persona_block_def generatePersona_def Let_def isl_def split: sum.splits)

lemma persona_block_others:
  "filter (\<lambda>f. gf_Path f \<noteq> ''../PERSONA.md'') (persona_block llm1 a opts files)
   = filter (\<lambda>f. gf_Path f \<noteq> ''../PERSONA.md'') (persona_block llm2 a opts files)"
  by (simp add: persona_block_def Let_def split: sum.splits)

lemma persona_block_paths_eq:
  "map gf_Path (persona_block llm1 a opts files) = map gf_Path (persona_block llm2 a opts files)"
  by (simp add: persona_block_paths)

text \<open>
  Claim C6, as stated: for fixed analysis, configuration and options, two invocations of
  \<open>Generate\<close> return identical lists of documents. The free-text persona is the reply
  of a language-model service that \<open>Generate\<close> calls over the network: with two
  different replies of the service the two lists differ.
\<close>

theorem two_runs_differ:
  "Generate kind_only reply_one orders default_Options
     \<noteq> Generate kind_only reply_two orders default_Options"
proof -
  from Generate_before_persona [of kind_only orders default_Options] obtain r where
    r: "\<And>llm. Generate kind_only llm orders default_Options =
      (case r of Inl err \<Rightarrow> Inl err
       | Inr files \<Rightarrow> Inr (persona_block llm orders default_Options files))"
    by blast
  have "Generate kind_only unreachable orders default_Options \<noteq> Inl e" for e
    by (simp add: Generate_def GenerateDeployment_def kind_only_def service_and_ingress_def
        GenerateService_def GenerateIngress_def hasHTTPPort_def hpa_block_def GenerateHPA_def
        argocd_block_def GenerateArgoCD_def ci_block_def GenerateGitHubActions_def
        orders_def zero_AppAnalysis_def default_Options_def Let_def)
  then obtain files where "r = Inr files"
    using r [of unreachable] by (cases r) auto
  moreover have "\<not> o_SkipPersona default_Options"
    by (simp add: default_Options_def)
  ultimately show ?thesis
    unfolding r
    by (simp add: persona_block_def generatePersona_def reply_one_def reply_two_def Let_def
        split: sum.splits)
qed

text \<open>
  Claim C6, amended. For fixed analysis, configuration, options and marshaller, two
  invocations of \<open>Generate\<close> return identical lists of documents when the persona
  documents are skipped, when the language-model service gives the same reply both
  times, and when it fails both times, with whatever errors. Whatever the service
  replies, both invocations fail alike or return the same paths in the same order, and
  the same contents for every document other than \<open>../PERSONA.md\<close>.
\<close>

theorem two_runs_agree:
  "(o_SkipPersona opts \<longrightarrow>
      Generate toYAML llm1 analysis opts = Generate toYAML llm2 analysis opts)
   \<and> (llm1 (cfg_LLM_Provider (o_Config opts)) analysis
          = llm2 (cfg_LLM_Provider (o_Config opts)) analysis
        \<or> (isl (llm1 (cfg_LLM_Provider (o_Config opts)) analysis)
            \<and> isl (llm2 (cfg_LLM_Provider (o_Config opts)) analysis))
      \<longrightarrow> Generate toYAML llm1 analysis opts = Generate toYAML llm2 analysis opts)
   \<and> paths_of (Generate toYAML llm1 analysis opts) = paths_of (Generate toYAML llm2 analysis opts)
   \<and> map_sum id (filter (\<lambda>f. gf_Path f \<noteq> ''../PERSONA.md'')) (Generate toYAML llm1 analysis opts)
     = map_sum id (filter (\<lambda>f. gf_Path f \<noteq> ''../PERSONA.md'')) (Generate toYAML llm2 analysis opts)"
proof -
  from Generate_before_persona [of toYAML analysis opts] obtain r where
    r: "\<And>llm. Generate toYAML llm analysis opts =
      (case r of Inl err \<Rightarrow> Inl err | Inr files \<Rightarrow> Inr (persona_block llm analysis opts files))"
    by blast
  show ?thesis
  proof (cases r)
    case (Inl e)
    then show ?thesis
      by (simp add: r)
  next
    case (Inr files)
    have skip: "o_SkipPersona opts \<longrightarrow>
        persona_block llm1 analysis opts files = persona_block llm2 analysis opts files"
      by (simp add: persona_block_skip)
    have same: "llm1 (cfg_LLM_Provider (o_Config opts)) analysis
          = llm2 (cfg_LLM_Provider (o_Config opts)) analysis
        \<or> (isl (llm1 (cfg_LLM_Provider (o_Config opts)) analysis)
            \<and> isl (llm2 (cfg_LLM_Provider (o_Config opts)) analysis))
      \<longrightarrow> persona_block llm1 analysis opts files = persona_block llm2 analysis opts files"
      using persona_block_same_outcome [of llm1 opts analysis llm2 files] by blast
    from skip same show ?thesis
      using persona_block_others [of llm1 analysis opts files llm2]
        persona_block_paths_eq [of llm1 analysis opts files llm2]
      by (simp add: r Inr paths_of_def)
  qed
qed

theorem two_runs_agree_witness:
  "o_SkipPersona (default_Options\<lparr>o_SkipPersona := True\<rparr>)
   \<and> Generate kind_only reply_one orders (default_Options\<lparr>o_SkipPersona := True\<rparr>)
     = Generate kind_only reply_two orders (default_Options\<lparr>o_SkipPersona := True\<rparr>)
   \<and> isl (unreachable (cfg_LLM_Provider (o_Config default_Options)) orders)
   \<and> isl (timed_out (cfg_LLM_Provider (o_Config default_Options)) orders)
   \<and> unreachable (cfg_LLM_Provider (o_Config default_Options)) orders
       \<noteq> timed_out (cfg_LLM_Provider (o_Config default_Options)) orders
   \<and> Generate kind_only unreachable orders default_Options
     = Generate kind_only timed_out orders default_Options
   \<and> reply_one (cfg_LLM_Provider (o_Config default_Options)) orders
     = fixed_reply (cfg_LLM_Provider (o_Config default_Options)) orders
   \<and> Generate kind_only reply_one orders default_Options
     = Generate kind_only fixed_reply orders default_Options
   \<and> paths_of (Generate kind_only reply_one orders default_Options)
     = paths_of (Generate kind_only reply_two orders default_Options)"
proof -
  have fails: "isl (unreachable p orders)" "isl (timed_out p orders)"
    "unreachable p orders \<noteq> timed_out p orders" for p
    by (simp_all add: unreachable_def timed_out_def)
  have same: "reply_one p orders = fixed_reply p orders" for p
    by (simp add: reply_one_def fixed_reply_def orders_def zero_AppAnalysis_def)
  show ?thesis
    using two_runs_agree
        [of "default_Options\<lparr>o_SkipPersona := True\<rparr>" kind_only reply_one orders reply_two]
      two_runs_agree [of default_Options kind_only unreachable orders timed_out]
      two_runs_agree [of default_Options kind_only reply_one orders fixed_reply]
      two_runs_agree [of default_Options kind_only reply_one orders reply_two]
    by (simp add: fails same)
qed

subsection \<open>Overrides\<close>




lemma hpa_manifest_min_max:
  "hs_MinReplicas (hm_Spec (hpa_manifest a ns cfg)) = fst (hpa_values a)
   \<and> hs_MaxReplicas (hm_Spec (hpa_manifest a ns cfg)) = fst (snd (hpa_values a))"
  by (simp add: hpa_manifest_def Let_def split: prod.splits)












subsection \<open>Autoscaling bounds\<close>

text \<open>
  Where both bounds of the chosen scaling are positive, the validator and the
  autoscaling document read the same two numbers.
\<close>

lemma hpa_values_positive:
  assumes "resolve_scaling a = Some s" "sc_MinReplicas s > 0" "sc_MaxReplicas s > 0"
  shows "fst (hpa_values a) = sc_MinReplicas s \<and> fst (snd (hpa_values a)) = sc_MaxReplicas s"
  using assms
  by (auto simp: hpa_values_def resolve_scaling_def app_scaling_def Let_def split: option.splits)

text \<open>
  Claim C3 says that the validator's autoscaling bounds check resolves \<open>minReplicas\<close> and
  \<open>maxReplicas\<close> to the values of the autoscaling document, and reports an error exactly
  when that minimum exceeds that maximum. \<open>GenerateHPA\<close> replaces a bound that is not
  positive by its default (2 and 10); \<open>validateHPAMinMax\<close> compares the bounds as they
  were configured. With only \<open>min_replicas: 5\<close> configured, the document has the bounds 5
  and 10 and the validator reports 5 > 0; with only \<open>max_replicas: 1\<close>, the document has
  the bounds 2 and 1 and the validator reports nothing.
\<close>

theorem hpa_bounds_diverge:
  "hs_MinReplicas (hm_Spec (hpa_manifest orders_min_only ''default'' Default)) = 5
   \<and> hs_MaxReplicas (hm_Spec (hpa_manifest orders_min_only ''default'' Default)) = 10
   \<and> map (\<lambda>i. (vi_Severity i, vi_File i, vi_Message i))
        (vr_Issues (validateHPAMinMax \<lparr>vr_Issues = [], vr_Passed = True, vr_Summary = []\<rparr>
           orders_min_only))
       = [(SeverityError, ''hpa.yaml'', ''HPA minReplicas (5) > maxReplicas (0)'')]
   \<and> hs_MinReplicas (hm_Spec (hpa_manifest orders_max_only ''default'' Default)) = 2
   \<and> hs_MaxReplicas (hm_Spec (hpa_manifest orders_max_only ''default'' Default)) = 1
   \<and> vr_Issues (validateHPAMinMax \<lparr>vr_Issues = [], vr_Passed = True, vr_Summary = []\<rparr>
        orders_max_only) = []"
  by (simp add: hpa_manifest_min_max hpa_values_def app_scaling_def validateHPAMinMax_def
      resolve_scaling_def orders_min_only_def orders_max_only_def orders_def
      zero_AppAnalysis_def zero_AppConfigContext_def Let_def append_issue_def fmt_d_def
      digits_of.simps)

subsection \<open>Probes\<close>

lemma deployment_probes_of:
  "map (\<lambda>c. (c_LivenessProbe c, c_ReadinessProbe c))
     (containers (deployment_manifest a ns rs cfg)) = [deployment_probes a]"
  by (simp add: containers_def deployment_manifest_def Let_def split: prod.splits)

text \<open>
  With a liveness path and no readiness path in the app-config health settings, the
  workload document has a liveness probe and no readiness probe, while the structured
  persona takes the liveness path as readiness path.
\<close>

lemma liveness_only_probes:
  assumes "app_health a = Some h" "hx_LivenessPath h \<noteq> []" "hx_ReadinessPath h = []"
  shows "snd (deployment_probes a) = None"
    and "fst (deployment_probes a) \<noteq> None"
    and "fst (snd (health_values a)) = hx_LivenessPath h"
  using assms
  by (simp_all add: deployment_probes_def app_liveness_probe_def app_readiness_probe_def
      health_values_def Let_def split: option.splits prod.splits)

text \<open>
  Claim C7 says that every document with health probes, the workload document in
  particular, still has a readiness probe, on the liveness path, when only a liveness
  path is configured. For an application whose \<open>.dorgu.yaml\<close> configures the liveness
  probe \<open>/live\<close> on port 8080 and no readiness probe, the workload document has the
  liveness probe and no readiness probe; the structured persona of the same application
  has the readiness path \<open>/live\<close>.
\<close>

theorem liveness_only_no_readiness:
  "map c_ReadinessProbe
     (containers (deployment_manifest orders_liveness_only ''default''
        (GetResourcesForProfile Default ''api'') Default)) = [None]
   \<and> map (\<lambda>c. map_option (\<lambda>p. map_option hg_Path (pr_HTTPGet p)) (c_LivenessProbe c))
       (containers (deployment_manifest orders_liveness_only ''default''
          (GetResourcesForProfile Default ''api'') Default)) = [Some (Some ''/live'')]
   \<and> health_values orders_liveness_only = (''/live'', ''/live'', 8080, [])"
  by (simp add: containers_def deployment_manifest_def deployment_probes_def app_health_def
      app_liveness_probe_def app_readiness_probe_def health_values_def
      orders_liveness_only_def orders_def zero_AppAnalysis_def zero_AppConfigContext_def
      Let_def)

subsection \<open>Errors of the generators\<close>

text \<open>
  Claim C8, as stated: with an empty name, each per-document function returns an error.
  Only \<open>GeneratePersonaYAML\<close> tests the name: on the zero analysis, whose name is
  empty, with a marshaller that succeeds, the other six functions return a document.
\<close>

theorem empty_name_accepted:
  "a_Name zero_AppAnalysis = []
   \<and> \<not> isl (GenerateDeployment kind_only zero_AppAnalysis ''default''
              (cfg_Resources_Defaults Default) Default)
   \<and> \<not> isl (GenerateService kind_only zero_AppAnalysis ''default'' Default)
   \<and> \<not> isl (GenerateIngress kind_only zero_AppAnalysis ''default'' Default)
   \<and> \<not> isl (GenerateHPA kind_only zero_AppAnalysis ''default'' Default)
   \<and> \<not> isl (GenerateArgoCD kind_only zero_AppAnalysis ''default'' Default)
   \<and> \<not> isl (GenerateGitHubActions zero_AppAnalysis Default)"
  by (simp add: GenerateDeployment_def GenerateService_def GenerateIngress_def GenerateHPA_def
      GenerateArgoCD_def GenerateGitHubActions_def kind_only_def zero_AppAnalysis_def Let_def)

text \<open>
  Claim C8, amended. The structured persona function returns an error exactly when the
  name of the analysis is empty. The workload, network-exposure, endpoint, autoscaling
  and GitOps application functions return an error exactly when the serialization of
  their object fails, whatever the name. The CI pipeline function never returns an error.
\<close>

theorem generator_errors:
  "(isl (GeneratePersonaYAML analysis ns cfg) \<longleftrightarrow> a_Name analysis = [])
   \<and> (isl (GenerateDeployment toYAML analysis ns rs cfg)
        \<longleftrightarrow> isl (toYAML (DeploymentDoc (deployment_manifest analysis ns rs cfg))))
   \<and> (isl (GenerateService toYAML analysis ns cfg)
        \<longleftrightarrow> isl (toYAML (ServiceDoc (service_manifest analysis ns cfg))))
   \<and> (isl (GenerateIngress toYAML analysis ns cfg)
        \<longleftrightarrow> isl (toYAML (IngressDoc (ingress_manifest analysis ns cfg))))
   \<and> (isl (GenerateHPA toYAML analysis ns cfg)
        \<longleftrightarrow> isl (toYAML (HPADoc (hpa_manifest analysis ns cfg))))
   \<and> (isl (GenerateArgoCD toYAML analysis ns cfg)
        \<longleftrightarrow> isl (toYAML (ArgoCDDoc (argocd_application analysis ns cfg))))
   \<and> \<not> isl (GenerateGitHubActions analysis cfg)"
  by (simp add: GeneratePersonaYAML_def GenerateDeployment_def GenerateService_def
      GenerateIngress_def GenerateHPA_def GenerateArgoCD_def GenerateGitHubActions_def Let_def)

theorem generator_errors_witness:
  "isl (GeneratePersonaYAML zero_AppAnalysis ''default'' Default)
   \<and> \<not> isl (GeneratePersonaYAML orders ''default'' Default)
   \<and> isl (GenerateDeployment failing_marshaller orders ''default''
            (GetResourcesForProfile Default ''api'') Default)
   \<and> \<not> isl (GenerateDeployment kind_only orders ''default''
            (GetResourcesForProfile Default ''api'') Default)
   \<and> \<not> isl (GenerateGitHubActions orders Default)"
  using generator_errors [of zero_AppAnalysis "''default''" Default failing_marshaller
      "GetResourcesForProfile Default ''api''"]
    generator_errors [of orders "''default''" Default failing_marshaller
      "GetResourcesForProfile Default ''api''"]
    generator_errors [of orders "''default''" Default kind_only
      "GetResourcesForProfile Default ''api''"]
  by (simp add: failing_marshaller_def kind_only_def orders_def zero_AppAnalysis_def)

end
